theory Spec2Isabelle
  imports Complex_Main
begin

section \<open>Adaptive player modelling and scare orchestration of the nightmare game\<close>

text \<open>
  The development embeds the Observer (event ingestion, profiles, recommendations), the
  Director (trigger decision, event execution), the Analyzer's pattern list and the
  Player's sanity scalar.

  Conventions of the embedding.
  \<^item> A Go \<^verbatim>\<open>float64\<close> that comes from outside (an event payload, the player's health
    and sanity) or is computed from such a value (a fear strength, a fear-profile entry,
    an intensity, a priority) is a \<^verbatim>\<open>float64\<close> of the model below: a real number, an
    infinity or NaN, with the arithmetic and the comparisons of IEEE-754 on the special
    values. Arithmetic on the numbers is exact: rounding, overflow and the sign of zero
    are outside the model.
  \<^item> A \<^verbatim>\<open>float64\<close> that the code computes from constants, counters and durations only
    (the Director's tension, the reactor profile, the time factor of a priority, the
    Analyzer's weights) is always a number and is a \<^typ>\<open>real\<close>; so are the coordinates
    of a position.
  \<^item> A \<^verbatim>\<open>time.Time\<close> and a \<^verbatim>\<open>time.Duration\<close> are integers counting nanoseconds.
  \<^item> A Go map is a partial function; reading a missing key gives the zero value, which
    the readers below write out.
  \<^item> The iteration order of a Go map, the result of \<^verbatim>\<open>rand\<close> and the wall clock are
    parameters of the functions that use them.
  \<^item> Record fields carry a short prefix of their struct, since several structs of the
    source share field names (\<^verbatim>\<open>Type\<close>, \<^verbatim>\<open>Position\<close>, \<^verbatim>\<open>Intensity\<close>).
\<close>

subsection \<open>Enumerations\<close>

datatype FearType =
  FearDarkness | FearCreatures | FearSuddenNoises | FearIsolation | FearChasing
  | FearGore | FearClaustrophobia | FearOpenSpaces | FearUnknown

datatype ReactorType =
  ReactorCautious | ReactorBold | ReactorPanic | ReactorMethodical | ReactorReckless
  | ReactorHesitant

datatype ActionType =
  ActionMove | ActionRun | ActionHide | ActionInteract | ActionAttack
  | ActionInvestigate | ActionRetreat | ActionFreeze

datatype ScareEventType =
  EventAmbientSound | EventSuddenNoise | EventCreatureAppearance | EventEnvironmentChange
  | EventHallucination | EventWhisper

text \<open>The loops \<^verbatim>\<open>for fearType := FearDarkness; fearType <= FearUnknown; fearType++\<close>
  and their reactor counterpart visit the constants in declaration order.\<close>

definition fearTypes :: "FearType list" where
  "fearTypes = [FearDarkness, FearCreatures, FearSuddenNoises, FearIsolation, FearChasing,
                FearGore, FearClaustrophobia, FearOpenSpaces, FearUnknown]"

definition reactorTypes :: "ReactorType list" where
  "reactorTypes = [ReactorCautious, ReactorBold, ReactorPanic, ReactorMethodical,
                   ReactorReckless, ReactorHesitant]"

definition actionTypes :: "ActionType list" where
  "actionTypes = [ActionMove, ActionRun, ActionHide, ActionInteract, ActionAttack,
                  ActionInvestigate, ActionRetreat, ActionFreeze]"

subsection \<open>Time\<close>

type_synonym Time = int
type_synonym Duration = int

definition Second :: Duration where
  "Second = 1000000000"

text \<open>\<^verbatim>\<open>Duration.Seconds()\<close>.\<close>

definition Seconds :: "Duration \<Rightarrow> real" where
  "Seconds d = real_of_int d / 1000000000"

subsection \<open>Floating-point values\<close>

datatype float64 = Finite real | PosInf | NegInf | NaN

text \<open>
  The operators of Go on \<^verbatim>\<open>float64\<close>. NaN is absorbing, the sum of opposite infinities
  and the product of an infinity and zero are NaN, a quotient of infinities is NaN, and
  every comparison with NaN is false.
\<close>

instantiation float64 :: "{zero, one, plus, uminus, minus, times, inverse, abs, ord}"
begin

definition zero_float64 :: float64 where
  "zero_float64 = Finite 0"

definition one_float64 :: float64 where
  "one_float64 = Finite 1"

fun plus_float64 :: "float64 \<Rightarrow> float64 \<Rightarrow> float64" where
  "plus_float64 NaN y = NaN"
| "plus_float64 x NaN = NaN"
| "plus_float64 (Finite a) (Finite b) = Finite (a + b)"
| "plus_float64 PosInf NegInf = NaN"
| "plus_float64 NegInf PosInf = NaN"
| "plus_float64 PosInf y = PosInf"
| "plus_float64 x PosInf = PosInf"
| "plus_float64 NegInf y = NegInf"
| "plus_float64 x NegInf = NegInf"

fun uminus_float64 :: "float64 \<Rightarrow> float64" where
  "uminus_float64 (Finite a) = Finite (- a)"
| "uminus_float64 PosInf = NegInf"
| "uminus_float64 NegInf = PosInf"
| "uminus_float64 NaN = NaN"

definition minus_float64 :: "float64 \<Rightarrow> float64 \<Rightarrow> float64" where
  "minus_float64 x y = x + (- y)"

fun times_float64 :: "float64 \<Rightarrow> float64 \<Rightarrow> float64" where
  "times_float64 NaN y = NaN"
| "times_float64 x NaN = NaN"
| "times_float64 (Finite a) (Finite b) = Finite (a * b)"
| "times_float64 PosInf (Finite b) = (if b = 0 then NaN else if 0 < b then PosInf else NegInf)"
| "times_float64 NegInf (Finite b) = (if b = 0 then NaN else if 0 < b then NegInf else PosInf)"
| "times_float64 (Finite a) PosInf = (if a = 0 then NaN else if 0 < a then PosInf else NegInf)"
| "times_float64 (Finite a) NegInf = (if a = 0 then NaN else if 0 < a then NegInf else PosInf)"
| "times_float64 PosInf PosInf = PosInf"
| "times_float64 PosInf NegInf = NegInf"
| "times_float64 NegInf PosInf = NegInf"
| "times_float64 NegInf NegInf = PosInf"

fun divide_float64 :: "float64 \<Rightarrow> float64 \<Rightarrow> float64" where
  "divide_float64 NaN y = NaN"
| "divide_float64 x NaN = NaN"
| "divide_float64 (Finite a) (Finite b) =
     (if b = 0 then (if a = 0 then NaN else if 0 < a then PosInf else NegInf)
      else Finite (a / b))"
| "divide_float64 (Finite a) PosInf = Finite 0"
| "divide_float64 (Finite a) NegInf = Finite 0"
| "divide_float64 PosInf (Finite b) = (if b < 0 then NegInf else PosInf)"
| "divide_float64 NegInf (Finite b) = (if b < 0 then PosInf else NegInf)"
| "divide_float64 PosInf PosInf = NaN"
| "divide_float64 PosInf NegInf = NaN"
| "divide_float64 NegInf PosInf = NaN"
| "divide_float64 NegInf NegInf = NaN"

definition inverse_float64 :: "float64 \<Rightarrow> float64" where
  "inverse_float64 x = divide (Finite 1) x"

fun abs_float64 :: "float64 \<Rightarrow> float64" where
  "abs_float64 (Finite a) = Finite \<bar>a\<bar>"
| "abs_float64 PosInf = PosInf"
| "abs_float64 NegInf = PosInf"
| "abs_float64 NaN = NaN"

fun less_float64 :: "float64 \<Rightarrow> float64 \<Rightarrow> bool" where
  "less_float64 NaN y = False"
| "less_float64 x NaN = False"
| "less_float64 (Finite a) (Finite b) = (a < b)"
| "less_float64 NegInf NegInf = False"
| "less_float64 NegInf y = True"
| "less_float64 x NegInf = False"
| "less_float64 PosInf y = False"
| "less_float64 x PosInf = True"

fun less_eq_float64 :: "float64 \<Rightarrow> float64 \<Rightarrow> bool" where
  "less_eq_float64 NaN y = False"
| "less_eq_float64 x NaN = False"
| "less_eq_float64 (Finite a) (Finite b) = (a \<le> b)"
| "less_eq_float64 NegInf y = True"
| "less_eq_float64 x PosInf = True"
| "less_eq_float64 x NegInf = False"
| "less_eq_float64 PosInf y = False"

instance ..

end

text \<open>Numerals and decimal literals of type \<^verbatim>\<open>float64\<close>: the sum is associative, which is
  what a numeral is built from, and a decimal literal is a quotient by a power of ten.\<close>

instance float64 :: semigroup_add
proof
  fix a b c :: float64
  show "a + b + c = a + (b + c)"
    by (cases a; cases b; cases c) simp_all
qed

instance float64 :: numeral ..

instance float64 :: power ..

text \<open>
  \<^verbatim>\<open>math.Max\<close> and \<^verbatim>\<open>math.Min\<close>, in the order of the cases of their source: an infinity
  of the right sign wins, then NaN wins, then the comparison decides.
\<close>

definition goMax :: "float64 \<Rightarrow> float64 \<Rightarrow> float64" where
  "goMax x y =
     (if x = PosInf \<or> y = PosInf then PosInf
      else if x = NaN \<or> y = NaN then NaN
      else if x > y then x else y)"

definition goMin :: "float64 \<Rightarrow> float64 \<Rightarrow> float64" where
  "goMin x y =
     (if x = NegInf \<or> y = NegInf then NegInf
      else if x = NaN \<or> y = NaN then NaN
      else if x < y then x else y)"

text \<open>
  \<^verbatim>\<open>sort.Slice\<close> with the comparison \<open>lt\<close> in the place of its \<^verbatim>\<open>less\<close>. Go sorts a slice
  of at most twelve elements, which the slices sorted here are, by insertion: each
  element in turn moves to the left while it is \<open>lt\<close> its left neighbour.
  \<open>insertionStep\<close> does that on the reversed sorted prefix. With NaN among the keys the
  comparison is no order, and the result is still a permutation of the slice.
\<close>

fun insertionStep :: "('a \<Rightarrow> 'a \<Rightarrow> bool) \<Rightarrow> 'a \<Rightarrow> 'a list \<Rightarrow> 'a list" where
  "insertionStep lt x [] = [x]"
| "insertionStep lt x (p # ps) =
     (if lt x p then p # insertionStep lt x ps else x # p # ps)"

definition sortSlice :: "('a \<Rightarrow> 'a \<Rightarrow> bool) \<Rightarrow> 'a list \<Rightarrow> 'a list" where
  "sortSlice lt xs = rev (foldl (\<lambda>sorted x. insertionStep lt x sorted) [] xs)"

subsection \<open>The player\<close>

record Vector2D =
  X :: real
  Y :: real

record Player =
  Position :: Vector2D
  Direction :: real
  Health :: float64
  Sanity :: float64


subsection \<open>The Director\<close>

record ScareEvent =
  se_Type :: ScareEventType
  se_Intensity :: float64
  se_Position :: Vector2D
  se_Duration :: Duration
  se_CreatureType :: string
  se_Timestamp :: Time

record BehaviorPattern =
  MovementPreference :: real
  ExplorationPreference :: real
  RiskTolerance :: real
  ReactivityToScares :: real
  PreferredInteractions :: "string list"

text \<open>
  The Director holds its world as an \<^verbatim>\<open>interface{}\<close> and calls it only after a type
  assertion on the method it needs. The world is therefore two facts (which of the two
  methods its dynamic type has), and a call is an entry in the list of effects that
  \<^verbatim>\<open>executeScareEvent\<close> returns.
\<close>

record WorldIface =
  hasSpawnCreature :: bool
  hasModifyEnvironment :: bool


record Director =
  player :: Player
  world :: WorldIface
  playerBehavior :: BehaviorPattern
  scareHistory :: "ScareEvent list"
  scareEffectiveness :: "ScareEventType \<rightharpoonup> real"
  lastAnalysisTime :: Time
  mood :: real
  tension :: real

definition NewDirector :: "Player \<Rightarrow> WorldIface \<Rightarrow> Time \<Rightarrow> Director" where
  "NewDirector p w now =
     \<lparr>player = p, world = w,
      playerBehavior = \<lparr>MovementPreference = 0.5, ExplorationPreference = 0.5,
                        RiskTolerance = 0.5, ReactivityToScares = 0.5,
                        PreferredInteractions = []\<rparr>,
      scareHistory = [], scareEffectiveness = Map.empty, lastAnalysisTime = now,
      mood = 0.3, tension = 0.1\<rparr>"

text \<open>
  \<^verbatim>\<open>Director.shouldCreateScareEvent\<close>. \<open>now\<close> is the clock read by \<^verbatim>\<open>time.Since\<close> and
  \<open>draw\<close> the value of \<^verbatim>\<open>rand.Float64()\<close>. \<open>baseChance\<close> is the chance the function has
  accumulated when it draws.
\<close>

definition baseChance :: "Director \<Rightarrow> Time \<Rightarrow> real" where
  "baseChance d now =
     (let b0 = tension d * 0.1
      in if length (scareHistory d) > 0 then
           (let lastScare = last (scareHistory d);
                timeSinceLast = now - se_Timestamp lastScare;
                b1 = (if timeSinceLast > 30 * Second then b0 + 0.1 else b0);
                b2 = (if timeSinceLast > 60 * Second then b1 + 0.2 else b1)
            in b2)
         else b0 + 0.3)"

definition shouldCreateScareEvent :: "Director \<Rightarrow> Time \<Rightarrow> real \<Rightarrow> bool" where
  "shouldCreateScareEvent d now draw = (draw < baseChance d now)"


subsection \<open>Item effects on the player\<close>

definition MaxHealth :: float64 where
  "MaxHealth = 100"

definition MaxSanity :: float64 where
  "MaxSanity = 100"





subsection \<open>Events\<close>

text \<open>
  The fields of an event are \<^verbatim>\<open>interface{}\<close> values. A value of that type is nil or a
  value tagged with its dynamic type; the handlers test for \<^verbatim>\<open>entity.Vector2D\<close>,
  \<^verbatim>\<open>float64\<close>, \<^verbatim>\<open>ScareEventType\<close> and \<^verbatim>\<open>*entity.Creature\<close>, and every other dynamic type
  (here a player pointer, an integer, a string) fails each of those assertions.
\<close>

datatype GoValue =
  GoNil
  | GoFloat64 float64
  | GoVector2D Vector2D
  | GoScareEventType ScareEventType
  | GoCreature nat
  | GoPlayer
  | GoInt int
  | GoString string

datatype EventType =
  EventPlayerMoved | EventPlayerDamaged | EventPlayerInteracted | EventPlayerSanityChanged
  | EventCreatureSpawned | EventCreatureKilled | EventCreatureDetected | EventWorldChanged
  | EventScareTriggered | EventItemPickedUp | EventItemUsed | EventAmbientChanged
  | EventGameStateChanged | EventCustom

text \<open>\<open>ev_Custom\<close> is \<open>None\<close> for a nil map.\<close>

record EventData =
  ev_Type :: EventType
  ev_Source :: GoValue
  ev_Target :: GoValue
  ev_Position :: GoValue
  ev_Value :: GoValue
  ev_Timestamp :: Time
  ev_Custom :: "(string \<rightharpoonup> GoValue) option"

text \<open>\<^verbatim>\<open>v, ok := data.Custom[key]\<close>: reading a nil map is allowed in Go and finds nothing.\<close>

definition customLookup :: "EventData \<Rightarrow> string \<Rightarrow> GoValue option" where
  "customLookup data key = (case ev_Custom data of None \<Rightarrow> None | Some m \<Rightarrow> m key)"

text \<open>\<^verbatim>\<open>data.Custom[key]\<close> as a value: nil for a missing key.\<close>

definition customValue :: "EventData \<Rightarrow> string \<Rightarrow> GoValue" where
  "customValue data key = (case customLookup data key of None \<Rightarrow> GoNil | Some v \<Rightarrow> v)"

definition zeroVector :: Vector2D where
  "zeroVector = \<lparr>X = 0, Y = 0\<rparr>"

text \<open>\<^verbatim>\<open>x, _ := v.(entity.Vector2D)\<close> and \<^verbatim>\<open>x, _ := v.(float64)\<close>: the zero value when the
  assertion fails.\<close>

definition vectorOrZero :: "GoValue \<Rightarrow> Vector2D" where
  "vectorOrZero v = (case v of GoVector2D p \<Rightarrow> p | _ \<Rightarrow> zeroVector)"

definition floatOrZero :: "GoValue \<Rightarrow> float64" where
  "floatOrZero v = (case v of GoFloat64 x \<Rightarrow> x | _ \<Rightarrow> 0)"

subsection \<open>The Observer's state\<close>

record PlayerAction =
  pa_Type :: ActionType
  pa_Position :: Vector2D
  pa_Direction :: Vector2D
  pa_Target :: GoValue
  pa_Timestamp :: Time
  pa_Context :: "string \<rightharpoonup> GoValue"

record FearResponse =
  fr_FearType :: FearType
  StrengthOfFear :: float64
  ActionsTaken :: "ActionType list"
  SanityLoss :: float64
  HeartRateChange :: float64
  ReactionTime :: Duration
  DistanceMoved :: float64

record ObservationContext =
  NearbyCreatures :: "nat list"
  LightLevel :: float64
  OpenSpace :: float64
  NearbyExits :: int
  TimeSinceLastScare :: Duration
  CurrentSanity :: float64
  RecentSanityLoss :: float64

record ScareRecommendation =
  sr_ScareType :: ScareEventType
  FearTarget :: FearType
  sr_Intensity :: float64
  sr_Position :: Vector2D
  Timing :: Duration
  Priority :: float64

text \<open>
  \<open>o_player\<close> is the player the Observer points to (\<open>None\<close> for a nil pointer, which
  \<^verbatim>\<open>updateContext\<close> checks for and the other readers do not). The event manager, the
  analyzer and director pointers, the random generator and the two fields that gate the
  analysis on the wall clock are not part of the state modelled here.
\<close>

record ObserverSystem =
  o_player :: "Player option"
  playerActions :: "PlayerAction list"
  fearResponses :: "FearType \<rightharpoonup> FearResponse list"
  reactorProfile :: "ReactorType \<rightharpoonup> real"
  fearProfile :: "FearType \<rightharpoonup> float64"
  o_context :: ObservationContext
  predictedActions :: "ActionType \<rightharpoonup> real"
  recommendedScares :: "ScareRecommendation list"

datatype panic = NilPointerDereference | IndexOutOfRange

definition NewObserverSystem :: "Player \<Rightarrow> ObserverSystem" where
  "NewObserverSystem p =
     \<lparr>o_player = Some p, playerActions = [], fearResponses = Map.empty,
      reactorProfile = Map.empty, fearProfile = Map.empty,
      o_context = \<lparr>NearbyCreatures = [], LightLevel = 0.5, OpenSpace = 0.5, NearbyExits = 2,
                   TimeSinceLastScare = 60 * Second, CurrentSanity = Sanity p,
                   RecentSanityLoss = 0\<rparr>,
      predictedActions = Map.empty, recommendedScares = []\<rparr>"

text \<open>\<^verbatim>\<open>ObserverSystem.Initialize\<close>, without the subscription to the event manager: every
  fear kind and every reactor type is set to 0.5.\<close>

definition Initialize :: "ObserverSystem \<Rightarrow> ObserverSystem" where
  "Initialize obs =
     obs\<lparr>fearProfile := foldl (\<lambda>m k. m(k \<mapsto> 0.5)) (fearProfile obs) fearTypes,
         reactorProfile := foldl (\<lambda>m k. m(k \<mapsto> 0.5)) (reactorProfile obs) reactorTypes\<rparr>"

text \<open>\<^verbatim>\<open>o.fearProfile[k]\<close> and \<^verbatim>\<open>o.reactorProfile[k]\<close> as values: 0 for a missing key.\<close>

definition fearProfileValue :: "ObserverSystem \<Rightarrow> FearType \<Rightarrow> float64" where
  "fearProfileValue obs k = (case fearProfile obs k of None \<Rightarrow> 0 | Some v \<Rightarrow> v)"

subsection \<open>The bounded histories\<close>

text \<open>\<^verbatim>\<open>xs[len(xs)-n:]\<close>, taken by both histories once they are longer than \<open>n\<close>.\<close>

definition keepLast :: "nat \<Rightarrow> 'a list \<Rightarrow> 'a list" where
  "keepLast n xs = (if length xs > n then drop (length xs - n) xs else xs)"

definition addPlayerAction :: "ObserverSystem \<Rightarrow> PlayerAction \<Rightarrow> ObserverSystem" where
  "addPlayerAction obs action =
     (let maxActions = 1000
      in obs\<lparr>playerActions := keepLast maxActions (playerActions obs @ [action])\<rparr>)"

definition recordFearResponse :: "ObserverSystem \<Rightarrow> FearResponse \<Rightarrow> ObserverSystem" where
  "recordFearResponse obs response =
     (let k = fr_FearType response;
          m1 = (case fearResponses obs k of
                  None \<Rightarrow> (fearResponses obs)(k \<mapsto> [])
                | Some _ \<Rightarrow> fearResponses obs);
          current = (case m1 k of None \<Rightarrow> [] | Some rs \<Rightarrow> rs);
          maxResponses = 20
      in obs\<lparr>fearResponses := m1(k \<mapsto> keepLast maxResponses (current @ [response]))\<rparr>)"

subsection \<open>The event handlers\<close>

definition determineFearType :: "GoValue \<Rightarrow> FearType" where
  "determineFearType source = (case source of GoCreature _ \<Rightarrow> FearCreatures | _ \<Rightarrow> FearUnknown)"

definition mapScareEventToFearType :: "ScareEventType \<Rightarrow> FearType" where
  "mapScareEventToFearType scareType =
     (case scareType of
        EventAmbientSound \<Rightarrow> FearIsolation
      | EventSuddenNoise \<Rightarrow> FearSuddenNoises
      | EventCreatureAppearance \<Rightarrow> FearCreatures
      | EventEnvironmentChange \<Rightarrow> FearUnknown
      | EventHallucination \<Rightarrow> FearIsolation
      | EventWhisper \<Rightarrow> FearIsolation)"

text \<open>A \<^verbatim>\<open>FearResponse\<close> literal that names three fields; the others are zero.\<close>

definition newFearResponse :: "FearType \<Rightarrow> float64 \<Rightarrow> float64 \<Rightarrow> FearResponse" where
  "newFearResponse k strength loss =
     \<lparr>fr_FearType = k, StrengthOfFear = strength, ActionsTaken = [], SanityLoss = loss,
      HeartRateChange = 0, ReactionTime = 0, DistanceMoved = 0\<rparr>"

text \<open>The action type \<^verbatim>\<open>recordMovement\<close> chooses from the event's value.\<close>

definition movementActionType :: "GoValue \<Rightarrow> ActionType" where
  "movementActionType v =
     (case v of GoFloat64 speed \<Rightarrow> (if speed > 1.5 then ActionRun else ActionMove)
      | _ \<Rightarrow> ActionMove)"

definition recordMovement :: "ObserverSystem \<Rightarrow> EventData \<Rightarrow> ObserverSystem" where
  "recordMovement obs data =
     (case ev_Position data of
        GoVector2D position \<Rightarrow>
          (let oldPosition =
                 (case customLookup data ''oldPosition'' of
                    Some prevPos \<Rightarrow> vectorOrZero prevPos
                  | None \<Rightarrow> zeroVector);
               direction = \<lparr>X = X position - X oldPosition, Y = Y position - Y oldPosition\<rparr>;
               actionType = movementActionType (ev_Value data)
           in addPlayerAction obs
                \<lparr>pa_Type = actionType, pa_Position = position, pa_Direction = direction,
                 pa_Target = GoNil, pa_Timestamp = ev_Timestamp data,
                 pa_Context = Map.empty\<rparr>)
      | _ \<Rightarrow> obs)"

definition recordDamage :: "ObserverSystem \<Rightarrow> EventData \<Rightarrow> panic + ObserverSystem" where
  "recordDamage obs data =
     (if ev_Source data = GoNil then Inr obs
      else (case o_player obs of
              None \<Rightarrow> Inl NilPointerDereference
            | Some p \<Rightarrow>
                Inr (addPlayerAction obs
                  \<lparr>pa_Type = ActionFreeze, pa_Position = Position p,
                   pa_Direction = zeroVector, pa_Target = ev_Source data,
                   pa_Timestamp = ev_Timestamp data,
                   pa_Context = [''damageAmount'' \<mapsto> ev_Value data]\<rparr>)))"

definition recordSanityChange :: "ObserverSystem \<Rightarrow> EventData \<Rightarrow> ObserverSystem" where
  "recordSanityChange obs data =
     (case ev_Value data of
        GoFloat64 sanityChange \<Rightarrow>
          (if sanityChange < 0 then
             (let oldValue = floatOrZero (customValue data ''oldValue'');
                  newValue = floatOrZero (customValue data ''newValue'');
                  fearType = (if ev_Source data \<noteq> GoNil
                              then determineFearType (ev_Source data) else FearUnknown)
              in recordFearResponse obs
                   (newFearResponse fearType (\<bar>sanityChange\<bar> / 20.0) (oldValue - newValue)))
           else obs)
      | _ \<Rightarrow> obs)"

definition recordInteraction :: "ObserverSystem \<Rightarrow> EventData \<Rightarrow> panic + ObserverSystem" where
  "recordInteraction obs data =
     (if ev_Target data = GoNil then Inr obs
      else (case o_player obs of
              None \<Rightarrow> Inl NilPointerDereference
            | Some p \<Rightarrow>
                Inr (addPlayerAction obs
                  \<lparr>pa_Type = ActionInteract, pa_Position = Position p,
                   pa_Direction = zeroVector, pa_Target = ev_Target data,
                   pa_Timestamp = ev_Timestamp data, pa_Context = Map.empty\<rparr>)))"

definition recordScareResponse :: "ObserverSystem \<Rightarrow> EventData \<Rightarrow> ObserverSystem" where
  "recordScareResponse obs data =
     (case customValue data ''scareType'' of
        GoScareEventType scareType \<Rightarrow>
          (let fearType = mapScareEventToFearType scareType;
               intensity = (case ev_Value data of GoFloat64 val \<Rightarrow> val | _ \<Rightarrow> 0.5);
               obs1 = recordFearResponse obs
                        (newFearResponse fearType intensity (RecentSanityLoss (o_context obs)))
           in obs1\<lparr>o_context := (o_context obs1)\<lparr>TimeSinceLastScare := 0\<rparr>\<rparr>)
      | _ \<Rightarrow> obs)"

text \<open>
  The listeners that \<^verbatim>\<open>subscribeToEvents\<close> registers, as the event manager's dispatch
  runs them: one handler for each of five event types and none for the others.
\<close>

definition handleEvent :: "ObserverSystem \<Rightarrow> EventData \<Rightarrow> panic + ObserverSystem" where
  "handleEvent obs data =
     (case ev_Type data of
        EventPlayerMoved \<Rightarrow> Inr (recordMovement obs data)
      | EventPlayerDamaged \<Rightarrow> recordDamage obs data
      | EventPlayerSanityChanged \<Rightarrow> Inr (recordSanityChange obs data)
      | EventPlayerInteracted \<Rightarrow> recordInteraction obs data
      | EventScareTriggered \<Rightarrow> Inr (recordScareResponse obs data)
      | _ \<Rightarrow> Inr obs)"

subsection \<open>The analysis cycle\<close>

text \<open>The counting loop of \<^verbatim>\<open>analyzeReactorProfile\<close>, for one action type.\<close>

definition countActions :: "ActionType \<Rightarrow> PlayerAction list \<Rightarrow> int" where
  "countActions t actions = foldl (\<lambda>c a. if pa_Type a = t then c + 1 else c) 0 actions"

text \<open>The six scores before normalisation.\<close>

definition rawReactorScore :: "PlayerAction list \<Rightarrow> ReactorType \<Rightarrow> real" where
  "rawReactorScore actions r =
     (let runCount = countActions ActionRun actions;
          hideCount = countActions ActionHide actions;
          interactCount = countActions ActionInteract actions;
          attackCount = countActions ActionAttack actions;
          investigateCount = countActions ActionInvestigate actions;
          retreatCount = countActions ActionRetreat actions;
          freezeCount = countActions ActionFreeze actions;
          totalActions = int (length actions)
      in (case r of
            ReactorCautious \<Rightarrow>
              real_of_int (hideCount + retreatCount - attackCount) / real_of_int totalActions
          | ReactorBold \<Rightarrow>
              real_of_int (attackCount + investigateCount - hideCount) / real_of_int totalActions
          | ReactorPanic \<Rightarrow>
              real_of_int (runCount + freezeCount) / real_of_int totalActions
          | ReactorMethodical \<Rightarrow>
              real_of_int (investigateCount + interactCount) / real_of_int totalActions
          | ReactorReckless \<Rightarrow>
              real_of_int (runCount + attackCount - hideCount) / real_of_int totalActions
          | ReactorHesitant \<Rightarrow>
              real_of_int (freezeCount - interactCount) / real_of_int totalActions))"

text \<open>\<^verbatim>\<open>math.MaxFloat64\<close>, the largest finite \<^verbatim>\<open>float64\<close>.\<close>

definition MaxFloat64 :: real where
  "MaxFloat64 = 2 ^ 1024 - 2 ^ 971"

text \<open>
  \<^verbatim>\<open>normalizeProfile\<close>. Its first loop ranges over the values of the map; a minimum and a
  maximum do not depend on the order of the visit, which is taken to be the declaration
  order of the keys. Its second loop overwrites the value of each key of the map.
\<close>

definition profileValues :: "(ReactorType \<rightharpoonup> real) \<Rightarrow> real list" where
  "profileValues profile = List.map_filter profile reactorTypes"

definition profileMin :: "(ReactorType \<rightharpoonup> real) \<Rightarrow> real" where
  "profileMin profile =
     foldl (\<lambda>mn v. if v < mn then v else mn) MaxFloat64 (profileValues profile)"

definition profileMax :: "(ReactorType \<rightharpoonup> real) \<Rightarrow> real" where
  "profileMax profile =
     foldl (\<lambda>mx v. if v > mx then v else mx) (- MaxFloat64) (profileValues profile)"

definition normalizeProfile :: "(ReactorType \<rightharpoonup> real) \<Rightarrow> (ReactorType \<rightharpoonup> real)" where
  "normalizeProfile profile =
     (let mn = profileMin profile; mx = profileMax profile
      in (\<lambda>key. case profile key of
                  None \<Rightarrow> None
                | Some v \<Rightarrow> Some (if mx > mn then (v - mn) / (mx - mn) else 0.5)))"

definition analyzeReactorProfile :: "ObserverSystem \<Rightarrow> ObserverSystem" where
  "analyzeReactorProfile obs =
     (if length (playerActions obs) < 10 then obs
      else obs\<lparr>reactorProfile :=
                 normalizeProfile
                   (foldl (\<lambda>m r. m(r \<mapsto> rawReactorScore (playerActions obs) r))
                      (reactorProfile obs) reactorTypes)\<rparr>)"

text \<open>The body of the loop of \<^verbatim>\<open>analyzeFearProfile\<close> for one fear kind.\<close>

definition updateFearKind :: "ObserverSystem \<Rightarrow> FearType \<Rightarrow> ObserverSystem" where
  "updateFearKind obs fearType =
     (case fearResponses obs fearType of
        None \<Rightarrow> obs
      | Some responses \<Rightarrow>
          (if length responses = 0 then obs
           else (let totalStrength = foldl (\<lambda>t r. t + StrengthOfFear r) 0 responses;
                     avgStrength = totalStrength / Finite (real (length responses))
                 in obs\<lparr>fearProfile := (fearProfile obs)
                          (fearType \<mapsto> fearProfileValue obs fearType * 0.7 + avgStrength * 0.3)\<rparr>)))"

text \<open>\<^verbatim>\<open>analyzeFearProfile\<close>; \<^verbatim>\<open>len(o.fearResponses) == 0\<close> says that the map has no key.\<close>

definition analyzeFearProfile :: "ObserverSystem \<Rightarrow> ObserverSystem" where
  "analyzeFearProfile obs =
     (if list_all (\<lambda>k. fearResponses obs k = None) fearTypes then obs
      else foldl updateFearKind obs fearTypes)"

text \<open>
  \<^verbatim>\<open>getDominantReactorType\<close> ranges over the reactor profile in the order the runtime
  picks; \<open>order\<close> is that order, an enumeration of the keys.
\<close>

definition getDominantReactorType :: "ObserverSystem \<Rightarrow> ReactorType list \<Rightarrow> ReactorType" where
  "getDominantReactorType obs order =
     snd (foldl
            (\<lambda>(maxValue, dominantType) reactorType.
               case reactorProfile obs reactorType of
                 None \<Rightarrow> (maxValue, dominantType)
               | Some v \<Rightarrow> (if v > maxValue then (v, reactorType)
                            else (maxValue, dominantType)))
            (- 1.0, ReactorCautious) order)"

definition predictActions :: "ObserverSystem \<Rightarrow> ReactorType list \<Rightarrow> ObserverSystem" where
  "predictActions obs order =
     (let cleared = foldl (\<lambda>m a. m(a \<mapsto> 0)) (predictedActions obs) actionTypes;
          dominantReactor = getDominantReactorType obs order
      in obs\<lparr>predictedActions :=
           (case dominantReactor of
              ReactorCautious \<Rightarrow>
                cleared(ActionHide \<mapsto> 0.4, ActionRetreat \<mapsto> 0.3, ActionMove \<mapsto> 0.2,
                        ActionInvestigate \<mapsto> 0.1)
            | ReactorBold \<Rightarrow>
                cleared(ActionInvestigate \<mapsto> 0.4, ActionAttack \<mapsto> 0.3, ActionMove \<mapsto> 0.2,
                        ActionInteract \<mapsto> 0.1)
            | ReactorPanic \<Rightarrow>
                cleared(ActionRun \<mapsto> 0.5, ActionFreeze \<mapsto> 0.3, ActionRetreat \<mapsto> 0.2)
            | ReactorMethodical \<Rightarrow>
                cleared(ActionInvestigate \<mapsto> 0.4, ActionInteract \<mapsto> 0.3, ActionMove \<mapsto> 0.2,
                        ActionHide \<mapsto> 0.1)
            | ReactorReckless \<Rightarrow>
                cleared(ActionRun \<mapsto> 0.4, ActionAttack \<mapsto> 0.3, ActionMove \<mapsto> 0.2,
                        ActionInvestigate \<mapsto> 0.1)
            | ReactorHesitant \<Rightarrow>
                cleared(ActionFreeze \<mapsto> 0.4, ActionMove \<mapsto> 0.3, ActionRetreat \<mapsto> 0.2,
                        ActionHide \<mapsto> 0.1))\<rparr>)"

text \<open>\<^verbatim>\<open>AnalyzePlayerBehavior\<close>, one analysis cycle of the profiles.\<close>

definition AnalyzePlayerBehavior :: "ObserverSystem \<Rightarrow> ReactorType list \<Rightarrow> ObserverSystem" where
  "AnalyzePlayerBehavior obs order =
     predictActions (analyzeFearProfile (analyzeReactorProfile obs)) order"

subsection \<open>The recommendation pass\<close>

text \<open>
  \<^verbatim>\<open>chooseScareTypeForFearType\<close>. The random generator of package \<^verbatim>\<open>util\<close> is not among
  the sources; \<open>rnd\<close> is what its \<^verbatim>\<open>RangeInt(0, 6)\<close> returns, and an index outside the
  slice panics as Go's indexing does.
\<close>

definition chooseScareTypeForFearType :: "FearType \<Rightarrow> nat \<Rightarrow> panic + ScareEventType" where
  "chooseScareTypeForFearType fearType rnd =
     (case fearType of
        FearDarkness \<Rightarrow> Inr EventEnvironmentChange
      | FearCreatures \<Rightarrow> Inr EventCreatureAppearance
      | FearSuddenNoises \<Rightarrow> Inr EventSuddenNoise
      | FearIsolation \<Rightarrow> Inr EventWhisper
      | FearChasing \<Rightarrow> Inr EventCreatureAppearance
      | FearGore \<Rightarrow> Inr EventHallucination
      | FearClaustrophobia \<Rightarrow> Inr EventEnvironmentChange
      | FearOpenSpaces \<Rightarrow> Inr EventCreatureAppearance
      | FearUnknown \<Rightarrow>
          (let eventTypes = [EventAmbientSound, EventSuddenNoise, EventCreatureAppearance,
                             EventEnvironmentChange, EventHallucination, EventWhisper]
           in if rnd < length eventTypes then Inr (eventTypes ! rnd)
              else Inl IndexOutOfRange))"

text \<open>The intensity of a recommendation: the product, then \<^verbatim>\<open>math.Min\<close> with 1.0 and
  \<^verbatim>\<open>math.Max\<close> with 0.3.\<close>

definition recommendedIntensity :: "float64 \<Rightarrow> float64 \<Rightarrow> float64" where
  "recommendedIntensity fear sanity =
     (let intensity = fear * (1.0 + (1.0 - sanity / 100.0))
      in goMax 0.3 (goMin 1.0 intensity))"

text \<open>The factor \<^verbatim>\<open>0.5 + timeFactor*0.5\<close> of a priority. The time since the last scare is a
  duration, so the factor is a number.\<close>

definition priorityFactor :: "Duration \<Rightarrow> real" where
  "priorityFactor sinceLastScare =
     (let timeFactor = 1.0 - exp (- Seconds sinceLastScare / 60.0)
      in 0.5 + timeFactor * 0.5)"

definition generateRecommendationForFearType ::
  "ObserverSystem \<Rightarrow> FearType \<Rightarrow> nat \<Rightarrow> panic + ScareRecommendation" where
  "generateRecommendationForFearType obs fearType rnd =
     (case chooseScareTypeForFearType fearType rnd of
        Inl e \<Rightarrow> Inl e
      | Inr scareType \<Rightarrow>
          (let intensity = recommendedIntensity (fearProfileValue obs fearType)
                             (CurrentSanity (o_context obs));
               priority = fearProfileValue obs fearType
                            * Finite (priorityFactor (TimeSinceLastScare (o_context obs)));
               timing = (if TimeSinceLastScare (o_context obs) < 30 * Second
                         then 30 * Second else 10 * Second)
           in (case o_player obs of
                 None \<Rightarrow> Inl NilPointerDereference
               | Some p \<Rightarrow>
                   Inr \<lparr>sr_ScareType = scareType, FearTarget = fearType,
                        sr_Intensity = intensity, sr_Position = Position p,
                        Timing = timing, Priority = priority\<rparr>)))"

text \<open>
  \<^verbatim>\<open>getEffectiveFearTypes\<close>: the keys of the fear profile, in the order \<open>order\<close> in which
  the runtime enumerates them, sorted with the comparison "has the greater profile
  value", and the first three of them.
\<close>

definition getEffectiveFearTypes :: "ObserverSystem \<Rightarrow> FearType list \<Rightarrow> FearType list" where
  "getEffectiveFearTypes obs order =
     (let keys = filter (\<lambda>k. fearProfile obs k \<noteq> None) order;
          sorted = sortSlice (\<lambda>i j. fearProfileValue obs i > fearProfileValue obs j) keys;
          count = (if length sorted < 3 then length sorted else 3)
      in take count sorted)"

text \<open>The loop of \<^verbatim>\<open>GenerateScareRecommendations\<close> that appends one recommendation for
  each effective fear type.\<close>

fun appendRecommendations ::
  "ObserverSystem \<Rightarrow> nat \<Rightarrow> FearType list \<Rightarrow> panic + ObserverSystem" where
  "appendRecommendations obs rnd [] = Inr obs"
| "appendRecommendations obs rnd (fearType # rest) =
     (case generateRecommendationForFearType obs fearType rnd of
        Inl e \<Rightarrow> Inl e
      | Inr recommendation \<Rightarrow>
          appendRecommendations
            (obs\<lparr>recommendedScares := recommendedScares obs @ [recommendation]\<rparr>) rnd rest)"

definition GenerateScareRecommendations ::
  "ObserverSystem \<Rightarrow> FearType list \<Rightarrow> nat \<Rightarrow> panic + ObserverSystem" where
  "GenerateScareRecommendations obs order rnd =
     (let obs1 = obs\<lparr>recommendedScares := []\<rparr>;
          effectiveFears = getEffectiveFearTypes obs1 order
      in (case appendRecommendations obs1 rnd effectiveFears of
            Inl e \<Rightarrow> Inl e
          | Inr obs2 \<Rightarrow>
              Inr (obs2\<lparr>recommendedScares :=
                          sortSlice (\<lambda>i j. Priority i > Priority j)
                            (recommendedScares obs2)\<rparr>)))"

subsection \<open>The Analyzer's pattern list\<close>

record PlayerPattern =
  Name :: string
  Description :: string
  Weight :: real

record MovementAnalysis =
  AverageSpeed :: real
  DirectionChanges :: int
  ExplorationArea :: real
  PathRepetition :: real
  PreferredAreas :: "Vector2D list"

record InteractionAnalysis =
  InteractionRate :: real
  ia_PreferredInteractions :: "string \<rightharpoonup> int"
  ResponseToScareEvents :: "ScareEventType \<rightharpoonup> real"
  HealthLossRate :: real
  SanityLossRate :: real

text \<open>
  The part of the Analyzer that pattern detection reads and writes. The position history,
  the sector counters and the heat map feed \<open>movementAnalysis\<close> and
  \<open>interactionAnalysis\<close> in other methods and are not read here.
\<close>

record Analyzer =
  detectedPatterns :: "PlayerPattern list"
  movementAnalysis :: MovementAnalysis
  interactionAnalysis :: InteractionAnalysis

definition scareEventTypes :: "ScareEventType list" where
  "scareEventTypes = [EventAmbientSound, EventSuddenNoise, EventCreatureAppearance,
                      EventEnvironmentChange, EventHallucination, EventWhisper]"

text \<open>
  The loop of \<^verbatim>\<open>addPattern\<close>: the first entry with the pattern's name gets the mean of
  its weight and the new one and the search ends; a list without the name gets the
  pattern at its end.
\<close>

fun mergePattern :: "PlayerPattern list \<Rightarrow> PlayerPattern \<Rightarrow> PlayerPattern list" where
  "mergePattern [] pattern = [pattern]"
| "mergePattern (p # ps) pattern =
     (if Name p = Name pattern then p\<lparr>Weight := (Weight p + Weight pattern) / 2\<rparr> # ps
      else p # mergePattern ps pattern)"

definition addPattern :: "Analyzer \<Rightarrow> PlayerPattern \<Rightarrow> Analyzer" where
  "addPattern a pattern = a\<lparr>detectedPatterns := mergePattern (detectedPatterns a) pattern\<rparr>"

text \<open>
  The detectors. \<^verbatim>\<open>analyzer.go\<close> writes the descriptions in Russian; the strings below
  are those of the repository's second copy of the Analyzer, which has them in English.
\<close>

definition detectMovementPatterns :: "Analyzer \<Rightarrow> Analyzer" where
  "detectMovementPatterns a =
     (let m = movementAnalysis a;
          a1 = (if ExplorationArea m > 500 \<and> PathRepetition m < 2
                then addPattern a
                       \<lparr>Name = ''explorer'',
                        Description = ''Player actively explores the world without lingering in one place'',
                        Weight = 0.8 - (PathRepetition m / 10)\<rparr>
                else a);
          a2 = (if AverageSpeed m < 1.5 \<and> DirectionChanges m > 30
                then addPattern a1
                       \<lparr>Name = ''cautious'',
                        Description = ''Player is cautious, moves slowly and changes direction often'',
                        Weight = 0.9 - (AverageSpeed m / 3)\<rparr>
                else a1);
          a3 = (if AverageSpeed m > 2.0 \<and> DirectionChanges m < 15
                then addPattern a2
                       \<lparr>Name = ''determined'',
                        Description = ''Player moves quickly in the chosen direction'',
                        Weight = 0.7 + (AverageSpeed m / 5)\<rparr>
                else a2);
          a4 = (if ExplorationArea m < 200 \<and> PathRepetition m > 3
                then addPattern a3
                       \<lparr>Name = ''indecisive'',
                        Description = ''Player is indecisive, often returns to the same places'',
                        Weight = 0.6 + (PathRepetition m / 5)\<rparr>
                else a3)
      in a4)"

definition detectInteractionPatterns :: "Analyzer \<Rightarrow> Analyzer" where
  "detectInteractionPatterns a =
     (let rate = InteractionRate (interactionAnalysis a);
          a1 = (if rate > 0.3
                then addPattern a
                       \<lparr>Name = ''interactive'',
                        Description = ''Player actively interacts with the environment'',
                        Weight = 0.7 + rate\<rparr>
                else a);
          a2 = (if rate < 0.1
                then addPattern a1
                       \<lparr>Name = ''passive'',
                        Description = ''Player rarely interacts with the environment'',
                        Weight = 0.6 + (0.1 - rate)\<rparr>
                else a1)
      in a2)"

text \<open>The first loop of \<^verbatim>\<open>detectFearResponsePatterns\<close> sums the values of a map and
  counts them; the keys are visited in declaration order, which a sum does not depend on.\<close>

definition detectFearResponsePatterns :: "Analyzer \<Rightarrow> Analyzer" where
  "detectFearResponsePatterns a =
     (let responses = ResponseToScareEvents (interactionAnalysis a);
          vals = List.map_filter responses scareEventTypes;
          total = foldl (\<lambda>t r. t + r) 0 vals;
          count = length vals;
          a2 = (if count > 0 then
                  (let avgResponse = total / real count;
                       a1 = (if avgResponse < 0.3
                             then addPattern a
                                    \<lparr>Name = ''fearless'',
                                     Description = ''Player reacts weakly to frightening events'',
                                     Weight = 0.8 - avgResponse\<rparr>
                             else a)
                   in (if avgResponse > 0.7
                       then addPattern a1
                              \<lparr>Name = ''easily_scared'',
                               Description = ''Player reacts strongly to frightening events'',
                               Weight = 0.7 + avgResponse\<rparr>
                       else a1))
                else a);
          a3 = (case responses EventSuddenNoise of
                  Some response \<Rightarrow>
                    (if response > 0.8
                     then addPattern a2
                            \<lparr>Name = ''startles_easily'',
                             Description = ''Player is particularly sensitive to sudden sounds'',
                             Weight = 0.7 + response\<rparr>
                     else a2)
                | None \<Rightarrow> a2);
          a4 = (case responses EventCreatureAppearance of
                  Some response \<Rightarrow>
                    (if response > 0.8
                     then addPattern a3
                            \<lparr>Name = ''monster_phobia'',
                             Description = ''Player is particularly afraid of encountering creatures'',
                             Weight = 0.7 + response\<rparr>
                     else a3)
                | None \<Rightarrow> a3)
      in a4)"

text \<open>\<^verbatim>\<open>detectPatterns\<close>, run once in each analysis cycle. \<^verbatim>\<open>sort.Slice\<close> promises no
  order among equal weights; the model takes the stable one.\<close>

definition detectPatterns :: "Analyzer \<Rightarrow> Analyzer" where
  "detectPatterns a =
     (let a0 = a\<lparr>detectedPatterns := []\<rparr>;
          a1 = detectMovementPatterns a0;
          a2 = detectInteractionPatterns a1;
          a3 = detectFearResponsePatterns a2
      in a3\<lparr>detectedPatterns := sort_key (\<lambda>p. - Weight p) (detectedPatterns a3)\<rparr>)"

text \<open>\<^verbatim>\<open>o.fearResponses[k]\<close> as a value: the empty slice for a missing key.\<close>

definition responsesOf :: "ObserverSystem \<Rightarrow> FearType \<Rightarrow> FearResponse list" where
  "responsesOf obs k = (case fearResponses obs k of None \<Rightarrow> [] | Some rs \<Rightarrow> rs)"

subsection \<open>Constructors of the source used to build inputs\<close>

text \<open>\<^verbatim>\<open>entity.NewPlayer\<close>, with the inventory and the action log left out of the record.\<close>

definition NewPlayer :: Player where
  "NewPlayer = \<lparr>Position = \<lparr>X = 128, Y = 128\<rparr>, Direction = 0, Health = MaxHealth,
                Sanity = MaxSanity\<rparr>"

text \<open>\<^verbatim>\<open>event.NewScareEvent\<close>, \<^verbatim>\<open>event.NewPlayerMovedEvent\<close> and
  \<^verbatim>\<open>event.NewPlayerSanityChangedEvent\<close>; \<open>now\<close> is the clock they read.\<close>

definition NewScareEvent :: "GoValue \<Rightarrow> GoValue \<Rightarrow> GoValue \<Rightarrow> float64 \<Rightarrow> Time \<Rightarrow> EventData" where
  "NewScareEvent scareType source position intensity now =
     \<lparr>ev_Type = EventScareTriggered, ev_Source = source, ev_Target = GoNil,
      ev_Position = position, ev_Value = GoFloat64 intensity, ev_Timestamp = now,
      ev_Custom = Some [''scareType'' \<mapsto> scareType]\<rparr>"

definition NewPlayerMovedEvent :: "GoValue \<Rightarrow> GoValue \<Rightarrow> GoValue \<Rightarrow> Time \<Rightarrow> EventData" where
  "NewPlayerMovedEvent playerRef oldPosition newPosition now =
     \<lparr>ev_Type = EventPlayerMoved, ev_Source = playerRef, ev_Target = GoNil,
      ev_Position = newPosition, ev_Value = GoNil, ev_Timestamp = now,
      ev_Custom = Some [''oldPosition'' \<mapsto> oldPosition]\<rparr>"

definition NewPlayerSanityChangedEvent ::
  "GoValue \<Rightarrow> float64 \<Rightarrow> float64 \<Rightarrow> Time \<Rightarrow> EventData" where
  "NewPlayerSanityChangedEvent playerRef oldValue newValue now =
     \<lparr>ev_Type = EventPlayerSanityChanged, ev_Source = playerRef, ev_Target = GoNil,
      ev_Position = GoNil, ev_Value = GoFloat64 (newValue - oldValue), ev_Timestamp = now,
      ev_Custom = Some [''oldValue'' \<mapsto> GoFloat64 oldValue,
                        ''newValue'' \<mapsto> GoFloat64 newValue]\<rparr>"

text \<open>An action record of a given type and time stamp, at the origin.\<close>

definition actionAt :: "ActionType \<Rightarrow> nat \<Rightarrow> PlayerAction" where
  "actionAt t i =
     \<lparr>pa_Type = t, pa_Position = zeroVector, pa_Direction = zeroVector, pa_Target = GoNil,
      pa_Timestamp = int i, pa_Context = Map.empty\<rparr>"

text \<open>The Observer after \<^verbatim>\<open>NewObserverSystem\<close> and \<^verbatim>\<open>Initialize\<close>, for a new player.\<close>

definition initialObserver :: ObserverSystem where
  "initialObserver = Initialize (NewObserverSystem NewPlayer)"

text \<open>The Observer after one sanity-changed event that reports a drop from 100 to
  \<open>newValue\<close>.\<close>

definition afterSanityDrop :: "float64 \<Rightarrow> ObserverSystem" where
  "afterSanityDrop newValue =
     recordSanityChange initialObserver (NewPlayerSanityChangedEvent GoPlayer 100 newValue 0)"

text \<open>A scare-triggered event with a valid scare type whose value is a string instead of
  a \<^verbatim>\<open>float64\<close>.\<close>

definition whisperWithTextIntensity :: EventData where
  "whisperWithTextIntensity =
     (NewScareEvent (GoScareEventType EventWhisper) GoNil GoNil 0 0)\<lparr>ev_Value := GoString ''loud''\<rparr>"

text \<open>An Observer whose fear profile has a value far above 1 and values below 0.3, right
  after a scare; and the recommendation that an Observer of a new player yields right
  after a scare, for a given scare type, fear kind, intensity and priority.\<close>

definition extremeObserver :: ObserverSystem where
  "extremeObserver =
     initialObserver\<lparr>fearProfile :=
                       (\<lambda>k. Some (case k of FearGore \<Rightarrow> 1000 | FearChasing \<Rightarrow> 0.5 | _ \<Rightarrow> 0.1)),
                     o_context := (o_context initialObserver)\<lparr>TimeSinceLastScare := 0\<rparr>\<rparr>"

definition recommendationAfterScare ::
  "ScareEventType \<Rightarrow> FearType \<Rightarrow> float64 \<Rightarrow> float64 \<Rightarrow> ScareRecommendation" where
  "recommendationAfterScare scareType fearType intensity priority =
     \<lparr>sr_ScareType = scareType, FearTarget = fearType, sr_Intensity = intensity,
      sr_Position = Position NewPlayer, Timing = 30 * Second, Priority = priority\<rparr>"

text \<open>
  An Observer whose fear profile holds NaN: the initial one after a scare-triggered event
  with a valid scare type and the intensity NaN, and one analysis cycle. And an order of
  the keys of the fear profile that begins with the fear kind of that event.
\<close>

definition nanObserver :: ObserverSystem where
  "nanObserver =
     AnalyzePlayerBehavior
       (recordScareResponse initialObserver
          (NewScareEvent (GoScareEventType EventWhisper) GoNil GoNil NaN 0))
       reactorTypes"

definition isolationFirst :: "FearType list" where
  "isolationFirst = [FearIsolation, FearDarkness, FearCreatures, FearSuddenNoises, FearChasing,
                     FearGore, FearClaustrophobia, FearOpenSpaces, FearUnknown]"

text \<open>The pattern that the explorer rule of \<^verbatim>\<open>detectMovementPatterns\<close> adds, for a given
  weight.\<close>

definition explorerPattern :: "real \<Rightarrow> PlayerPattern" where
  "explorerPattern w =
     \<lparr>Name = ''explorer'',
      Description = ''Player actively explores the world without lingering in one place'',
      Weight = w\<rparr>"

text \<open>An Analyzer whose movement analysis satisfies the explorer rule only, before its
  first detection cycle; and the same Analyzer after that cycle, with the path repetition
  of its movement analysis raised from 0 to 1 for the second cycle.\<close>

definition firstCycleAnalyzer :: Analyzer where
  "firstCycleAnalyzer =
     \<lparr>detectedPatterns = [],
      movementAnalysis = \<lparr>AverageSpeed = 1.8, DirectionChanges = 20, ExplorationArea = 600,
                          PathRepetition = 0, PreferredAreas = []\<rparr>,
      interactionAnalysis = \<lparr>InteractionRate = 0.2, ia_PreferredInteractions = Map.empty,
                             ResponseToScareEvents = Map.empty, HealthLossRate = 0,
                             SanityLossRate = 0\<rparr>\<rparr>"

definition secondCycleAnalyzer :: Analyzer where
  "secondCycleAnalyzer =
     (detectPatterns firstCycleAnalyzer)
       \<lparr>movementAnalysis := (movementAnalysis firstCycleAnalyzer)\<lparr>PathRepetition := 1\<rparr>\<rparr>"

subsection \<open>Notions used to state the properties\<close>

text \<open>
  The field that each handler requires before it records anything is missing or has
  another dynamic type: the position of a player-moved event is not a vector, the source
  of a player-damaged event is nil, the value of a sanity-changed event is not a
  \<^verbatim>\<open>float64\<close>, the target of a player-interacted event is nil, the \<^verbatim>\<open>scareType\<close> entry
  of a scare-triggered event is absent or not a scare type.
\<close>

definition requiredFieldInvalid :: "EventData \<Rightarrow> bool" where
  "requiredFieldInvalid data =
     (case ev_Type data of
        EventPlayerMoved \<Rightarrow> (case ev_Position data of GoVector2D _ \<Rightarrow> False | _ \<Rightarrow> True)
      | EventPlayerDamaged \<Rightarrow> ev_Source data = GoNil
      | EventPlayerSanityChanged \<Rightarrow> (case ev_Value data of GoFloat64 _ \<Rightarrow> False | _ \<Rightarrow> True)
      | EventPlayerInteracted \<Rightarrow> ev_Target data = GoNil
      | EventScareTriggered \<Rightarrow>
          (case customValue data ''scareType'' of GoScareEventType _ \<Rightarrow> False | _ \<Rightarrow> True)
      | _ \<Rightarrow> False)"

text \<open>A \<^verbatim>\<open>float64\<close> that is a number: neither an infinity nor NaN.\<close>

definition isFinite :: "float64 \<Rightarrow> bool" where
  "isFinite x = (case x of Finite _ \<Rightarrow> True | _ \<Rightarrow> False)"

text \<open>The mean of the strengths of a list of responses, as \<^verbatim>\<open>analyzeFearProfile\<close>
  computes it.\<close>

definition meanStrength :: "FearResponse list \<Rightarrow> float64" where
  "meanStrength responses =
     foldl (\<lambda>t r. t + StrengthOfFear r) 0 responses / Finite (real (length responses))"

section \<open>Theorems\<close>

subsection \<open>Auxiliary facts\<close>

lemma numeral_float64 [simp]: "(numeral n :: float64) = Finite (numeral n)"
proof (induction n)
  case One
  show ?case by (simp add: one_float64_def)
next
  case (Bit0 n)
  have "(numeral (num.Bit0 n) :: float64) = numeral n + numeral n" by (rule numeral_Bit0)
  also have "\<dots> = Finite (numeral n + numeral n)" by (simp only: Bit0.IH plus_float64.simps)
  also have "\<dots> = Finite (numeral (num.Bit0 n))" by (simp only: numeral_Bit0)
  finally show ?case .
next
  case (Bit1 n)
  have "(numeral (num.Bit1 n) :: float64) = numeral n + numeral n + 1" by (rule numeral_Bit1)
  also have "\<dots> = Finite (numeral n + numeral n + 1)"
    by (simp only: Bit1.IH plus_float64.simps one_float64_def)
  also have "\<dots> = Finite (numeral (num.Bit1 n))" by (simp only: numeral_Bit1)
  finally show ?case .
qed

lemma zero_float64 [simp]: "(0 :: float64) = Finite 0"
  by (simp add: zero_float64_def)

lemma one_float64 [simp]: "(1 :: float64) = Finite 1"
  by (simp add: one_float64_def)

lemma power_float64 [simp]: "Finite a ^ n = Finite (a ^ n)"
  by (induction n) simp_all

lemma minus_float64_Finite [simp]: "Finite a - Finite b = Finite (a - b)"
  by (simp add: minus_float64_def)

lemma keepLast_keepLast_append:
  "keepLast n (keepLast n xs @ ys) = keepLast n (xs @ ys)"
  by (auto simp add: keepLast_def add.commute)

lemma keepLast_length: "length (keepLast n xs) = min n (length xs)"
  by (simp add: keepLast_def)

lemma playerActions_foldl:
  "playerActions (foldl addPlayerAction obs actions)
     = (if actions = [] then playerActions obs else keepLast 1000 (playerActions obs @ actions))"
proof (induction actions arbitrary: obs)
  case Nil
  show ?case by simp
next
  case (Cons a as)
  have step: "playerActions (addPlayerAction obs a) = keepLast 1000 (playerActions obs @ [a])"
    by (simp add: addPlayerAction_def)
  show ?case
    using keepLast_keepLast_append [of 1000 "playerActions obs @ [a]" as]
    by (simp add: Cons.IH step)
qed

lemma fearResponses_other:
  "fr_FearType r \<noteq> k \<Longrightarrow> fearResponses (recordFearResponse obs r) k = fearResponses obs k"
  by (simp add: recordFearResponse_def Let_def split: option.splits)

lemma fearResponses_same:
  "fr_FearType r = k \<Longrightarrow>
     fearResponses (recordFearResponse obs r) k = Some (keepLast 20 (responsesOf obs k @ [r]))"
  by (auto simp add: recordFearResponse_def responsesOf_def Let_def split: option.splits)

lemma fearResponses_foldl:
  "fearResponses (foldl recordFearResponse obs rs) k
     = (if filter (\<lambda>r. fr_FearType r = k) rs = [] then fearResponses obs k
        else Some (keepLast 20 (responsesOf obs k @ filter (\<lambda>r. fr_FearType r = k) rs)))"
proof (induction rs arbitrary: obs)
  case Nil
  show ?case by simp
next
  case (Cons r rs)
  show ?case
  proof (cases "fr_FearType r = k")
    case True
    then show ?thesis
      using keepLast_keepLast_append [of 20 "responsesOf obs k @ [r]" "filter (\<lambda>r. fr_FearType r = k) rs"]
      by (simp add: Cons.IH fearResponses_same responsesOf_def)
  next
    case False
    then show ?thesis
      by (simp add: Cons.IH fearResponses_other responsesOf_def)
  qed
qed

lemma MaxFloat64_large: "2 < MaxFloat64"
proof -
  have "(2::real) ^ 971 * 2 \<le> 2 ^ 971 * 2 ^ 53" by simp
  then have "(2::real) ^ 971 + 2 ^ 971 \<le> 2 ^ 1024" by (simp add: power_add [symmetric])
  moreover have "(2::real) < 2 ^ 971" using power_strict_increasing [of 1 971 "2::real"] by simp
  ultimately show ?thesis by (simp add: MaxFloat64_def)
qed

lemma countActions_filter:
  "countActions t actions = int (length (filter (\<lambda>a. pa_Type a = t) actions))"
proof -
  have "foldl (\<lambda>c a. if pa_Type a = t then c + 1 else c) c0 actions
          = c0 + int (length (filter (\<lambda>a. pa_Type a = t) actions))" for c0 :: int
    by (induction actions arbitrary: c0) simp_all
  then show ?thesis by (simp add: countActions_def)
qed

lemma countActions_bounds: "0 \<le> countActions t actions" "countActions t actions \<le> int (length actions)"
  by (simp_all add: countActions_filter)

lemma rawReactorScore_bounds:
  assumes "actions \<noteq> []"
  shows "- 2 \<le> rawReactorScore actions r \<and> rawReactorScore actions r \<le> 2"
proof -
  have n: "0 < real (length actions)" using assms by simp
  have b: "0 \<le> real_of_int (countActions t actions)
           \<and> real_of_int (countActions t actions) \<le> real (length actions)" for t
    using countActions_bounds [of t actions] by linarith
  show ?thesis
    using b [of ActionRun] b [of ActionHide] b [of ActionInteract] b [of ActionAttack]
      b [of ActionInvestigate] b [of ActionRetreat] b [of ActionFreeze] n
    by (cases r) (simp_all add: rawReactorScore_def Let_def pos_le_divide_eq pos_divide_le_eq)
qed


lemma foldl_min_Min:
  "foldl (\<lambda>mn v. if v < mn then v else mn) a vs = Min (insert (a::real) (set vs))"
proof (induction vs arbitrary: a)
  case Nil
  show ?case by simp
next
  case (Cons v vs)
  have "Min (insert (if v < a then v else a) (set vs)) = Min (insert a (insert v (set vs)))"
    by (cases "set vs = {}") (auto simp add: min_def)
  then show ?case by (simp add: Cons.IH)
qed

lemma foldl_max_Max:
  "foldl (\<lambda>mx v. if v > mx then v else mx) a vs = Max (insert (a::real) (set vs))"
proof (induction vs arbitrary: a)
  case Nil
  show ?case by simp
next
  case (Cons v vs)
  have "Max (insert (if v > a then v else a) (set vs)) = Max (insert a (insert v (set vs)))"
    by (cases "set vs = {}") (auto simp add: max_def)
  then show ?case by (simp add: Cons.IH)
qed

lemma reactorTypes_UNIV: "set reactorTypes = UNIV"
proof -
  have "r \<in> set reactorTypes" for r by (cases r) (simp_all add: reactorTypes_def)
  then show ?thesis by blast
qed

lemma finite_ReactorType: "finite (UNIV :: ReactorType set)"
  using finite_set [of reactorTypes] by (simp add: reactorTypes_UNIV)

lemma rawProfile_lookup:
  "foldl (\<lambda>m r. m(r \<mapsto> f r)) m0 reactorTypes r = Some (f r)"
  by (cases r) (simp_all add: reactorTypes_def)

lemma profileValues_total:
  assumes "\<And>r. profile r = Some (f r)"
  shows "set (profileValues profile) = range f"
proof -
  have "profileValues profile = map f reactorTypes"
    by (simp add: profileValues_def List.map_filter_def assms reactorTypes_def)
  then show ?thesis by (simp add: reactorTypes_UNIV)
qed

lemma normalizeProfile_total:
  assumes tot: "\<And>r. profile r = Some (f r)"
    and bnd: "\<And>r. - 2 \<le> f r \<and> f r \<le> 2"
  shows "profileMin profile = Min (range f)" and "profileMax profile = Max (range f)"
proof -
  have fin: "finite (range f)" by (simp add: finite_ReactorType)
  have ne: "range f \<noteq> {}" by simp
  have "Min (range f) \<le> f ReactorCautious" using fin by simp
  then have lo: "Min (range f) \<le> MaxFloat64" using bnd [of ReactorCautious] MaxFloat64_large by linarith
  have "f ReactorCautious \<le> Max (range f)" using fin by simp
  then have hi: "- MaxFloat64 \<le> Max (range f)" using bnd [of ReactorCautious] MaxFloat64_large by linarith
  have "Min (insert MaxFloat64 (range f)) = min MaxFloat64 (Min (range f))"
    using fin ne by (rule Min_insert)
  then show "profileMin profile = Min (range f)"
    using lo by (simp add: profileMin_def foldl_min_Min profileValues_total [OF tot] min_def)
  have "Max (insert (- MaxFloat64) (range f)) = max (- MaxFloat64) (Max (range f))"
    using fin ne by (rule Max_insert)
  then show "profileMax profile = Max (range f)"
    using hi by (simp add: profileMax_def foldl_max_Max profileValues_total [OF tot] max_def)
qed


lemma analyzeReactorProfile_normalized:
  assumes "10 \<le> length (playerActions obs)"
  shows "reactorProfile (analyzeReactorProfile obs) r =
           Some (let raw = rawReactorScore (playerActions obs);
                     mn = Min (range raw); mx = Max (range raw)
                 in if mx > mn then (raw r - mn) / (mx - mn) else 0.5)"
proof -
  let ?raw = "rawReactorScore (playerActions obs)"
  let ?m = "foldl (\<lambda>m r. m(r \<mapsto> ?raw r)) (reactorProfile obs) reactorTypes"
  have ne: "playerActions obs \<noteq> []" using assms by auto
  have tot: "?m r = Some (?raw r)" for r by (rule rawProfile_lookup)
  have bnd: "- 2 \<le> ?raw r \<and> ?raw r \<le> 2" for r by (rule rawReactorScore_bounds [OF ne])
  have mn: "profileMin ?m = Min (range ?raw)" by (rule normalizeProfile_total(1) [OF tot bnd])
  have mx: "profileMax ?m = Max (range ?raw)" by (rule normalizeProfile_total(2) [OF tot bnd])
  have "reactorProfile (analyzeReactorProfile obs) = normalizeProfile ?m"
    using assms by (simp add: analyzeReactorProfile_def)
  then show ?thesis
    by (simp add: normalizeProfile_def mn mx tot Let_def)
qed


subsection \<open>The trigger decision\<close>

text \<open>
  C1. The Director fires exactly when the draw is below the base chance, which is
  \<open>tension * 0.1\<close> plus 0.3 when no scare has fired yet, and otherwise plus 0.1 when more
  than 30 seconds have passed since the last fired scare and a further 0.2 when more than
  60 seconds have passed. With tension 0.5 and an empty history the base chance is 0.35:
  a draw of 0.30 fires and a draw of 0.40 does not.
\<close>

theorem shouldCreateScareEvent_chance:
  "(shouldCreateScareEvent d now draw \<longleftrightarrow>
      draw < tension d * 0.1 +
        (if scareHistory d = [] then 0.3
         else (if now - se_Timestamp (last (scareHistory d)) > 30 * Second then 0.1 else 0)
            + (if now - se_Timestamp (last (scareHistory d)) > 60 * Second then 0.2 else 0)))
   \<and> baseChance ((NewDirector p w t0)\<lparr>tension := 0.5\<rparr>) now = 0.35
   \<and> shouldCreateScareEvent ((NewDirector p w t0)\<lparr>tension := 0.5\<rparr>) now 0.30
   \<and> \<not> shouldCreateScareEvent ((NewDirector p w t0)\<lparr>tension := 0.5\<rparr>) now 0.40"
  by (auto simp add: shouldCreateScareEvent_def baseChance_def NewDirector_def Let_def)

subsection \<open>Sanity after a reduction\<close>










lemma keepLast_exact:
  assumes le: "n \<le> length ys"
  shows "keepLast n (xs @ ys) = drop (length ys - n) ys"
proof -
  have split: "length (xs @ ys) - n = length xs + (length ys - n)" using le by simp
  have "drop (length (xs @ ys) - n) (xs @ ys) = drop (length ys - n) ys"
    unfolding split by simp
  moreover have "xs @ ys = drop (length ys - n) ys" if "\<not> n < length (xs @ ys)"
  proof -
    have "length xs + length ys \<le> n" using that by simp
    then have "length xs \<le> 0" and "length ys - n = 0" using le by linarith+
    then show ?thesis by simp
  qed
  ultimately show ?thesis by (simp add: keepLast_def del: length_append)
qed

subsection \<open>The bounded histories\<close>

text \<open>
  C2. The action history and the response history of every fear kind are bounded
  buffers that evict the oldest entry first: after more than 1000 action records have
  been inserted, exactly the last 1000 of them remain, in insertion order; after more
  than 20 responses of one fear kind have been inserted (among responses of any kinds),
  exactly the last 20 of that kind remain, in insertion order. Both insertions are total
  functions of the state: there is no failure on overflow.
\<close>

theorem bounded_histories:
  "(1000 < length actions \<longrightarrow>
      playerActions (foldl addPlayerAction obs actions) = drop (length actions - 1000) actions
      \<and> length (playerActions (foldl addPlayerAction obs actions)) = 1000)
   \<and> (20 < length (filter (\<lambda>r. fr_FearType r = k) responses) \<longrightarrow>
      fearResponses (foldl recordFearResponse obs responses) k
        = Some (drop (length (filter (\<lambda>r. fr_FearType r = k) responses) - 20)
                  (filter (\<lambda>r. fr_FearType r = k) responses))
      \<and> length (responsesOf (foldl recordFearResponse obs responses) k) = 20)"
proof (intro conjI impI)
  assume a: "1000 < length actions"
  then have ne: "actions \<noteq> []" by auto
  have le: "1000 \<le> length actions" using a by simp
  show eq: "playerActions (foldl addPlayerAction obs actions) = drop (length actions - 1000) actions"
    using ne keepLast_exact [OF le, of "playerActions obs"] by (simp add: playerActions_foldl)
  show "length (playerActions (foldl addPlayerAction obs actions)) = 1000"
    using a by (simp add: eq)
next
  let ?F = "filter (\<lambda>r. fr_FearType r = k) responses"
  assume a: "20 < length ?F"
  then have ne: "?F \<noteq> []" by auto
  have le: "20 \<le> length ?F" using a by simp
  show eq: "fearResponses (foldl recordFearResponse obs responses) k = Some (drop (length ?F - 20) ?F)"
    using ne keepLast_exact [OF le, of "responsesOf obs k"] by (simp add: fearResponses_foldl)
  show "length (responsesOf (foldl recordFearResponse obs responses) k) = 20"
    using a by (simp add: responsesOf_def eq)
qed

theorem bounded_histories_witness:
  "1000 < length (map (actionAt ActionMove) [0..<1001])
   \<and> playerActions (foldl addPlayerAction (NewObserverSystem NewPlayer)
        (map (actionAt ActionMove) [0..<1001])) = map (actionAt ActionMove) [1..<1001]
   \<and> 20 < length (filter (\<lambda>r. fr_FearType r = FearUnknown)
                     (map (\<lambda>i. newFearResponse FearUnknown (Finite (real i / 100)) 0) [0..<21]))
   \<and> fearResponses (foldl recordFearResponse (NewObserverSystem NewPlayer)
        (map (\<lambda>i. newFearResponse FearUnknown (Finite (real i / 100)) 0) [0..<21])) FearUnknown
       = Some (map (\<lambda>i. newFearResponse FearUnknown (Finite (real i / 100)) 0) [1..<21])"
proof -
  have f: "filter (\<lambda>r. fr_FearType r = FearUnknown)
             (map (\<lambda>i. newFearResponse FearUnknown (Finite (real i / 100)) 0) [0..<21])
           = map (\<lambda>i. newFearResponse FearUnknown (Finite (real i / 100)) 0) [0..<21]"
    by (simp add: filter_map newFearResponse_def comp_def)
  show ?thesis
    using bounded_histories [of "map (actionAt ActionMove) [0..<1001]" "NewObserverSystem NewPlayer"
        FearUnknown "map (\<lambda>i. newFearResponse FearUnknown (Finite (real i / 100)) 0) [0..<21]"]
    unfolding f
    by (simp add: drop_map)
qed

subsection \<open>Normalisation of the reactor profile\<close>

text \<open>
  C6. Whenever the reactor profile is recomputed, which takes at least 10 action records,
  it has a score for each of the six reactor types; when the six raw scores are not all
  equal, the least normalised score is exactly 0 and the greatest exactly 1, and when the
  six raw scores are all equal every normalised score is exactly 0.5.
\<close>

theorem reactor_profile_min_max:
  assumes "10 \<le> length (playerActions obs)"
  shows "dom (reactorProfile (analyzeReactorProfile obs)) = UNIV
     \<and> ((\<exists>r1 r2. rawReactorScore (playerActions obs) r1 \<noteq> rawReactorScore (playerActions obs) r2)
          \<longrightarrow> Min (ran (reactorProfile (analyzeReactorProfile obs))) = 0
            \<and> Max (ran (reactorProfile (analyzeReactorProfile obs))) = 1)
     \<and> ((\<forall>r1 r2. rawReactorScore (playerActions obs) r1 = rawReactorScore (playerActions obs) r2)
          \<longrightarrow> (\<forall>r. reactorProfile (analyzeReactorProfile obs) r = Some 0.5))"
proof -
  define raw where "raw = rawReactorScore (playerActions obs)"
  define p where "p = reactorProfile (analyzeReactorProfile obs)"
  define mn where "mn = Min (range raw)"
  define mx where "mx = Max (range raw)"
  have fin: "finite (range raw)" by (simp add: finite_ReactorType)
  have val: "p r = Some (if mx > mn then (raw r - mn) / (mx - mn) else 0.5)" for r
    using analyzeReactorProfile_normalized [OF assms, of r]
    by (simp add: Let_def raw_def p_def mn_def mx_def)
  have lo: "mn \<le> raw r" for r unfolding mn_def using fin by simp
  have hi: "raw r \<le> mx" for r unfolding mx_def using fin by simp
  have dom: "dom p = UNIV" using val by (auto simp add: dom_def)
  have degenerate: "\<forall>r. p r = Some 0.5" if eq: "\<forall>r1 r2. raw r1 = raw r2"
  proof -
    have "range raw = {raw ReactorCautious}" using eq by auto
    then have "mx = mn" by (simp add: mn_def mx_def)
    then show ?thesis using val by simp
  qed
  have spread: "Min (ran p) = 0 \<and> Max (ran p) = 1" if ne: "\<exists>r1 r2. raw r1 \<noteq> raw r2"
  proof -
    from ne obtain r1 r2 where "raw r1 \<noteq> raw r2" by blast
    then have "raw r1 < raw r2 \<or> raw r2 < raw r1" by linarith
    then have gt: "mn < mx" using lo [of r1] hi [of r2] lo [of r2] hi [of r1] by linarith
    have v: "p r = Some ((raw r - mn) / (mx - mn))" for r using val [of r] gt by simp
    have ranv: "ran p = range (\<lambda>r. (raw r - mn) / (mx - mn))"
    proof
      show "ran p \<subseteq> range (\<lambda>r. (raw r - mn) / (mx - mn))"
      proof
        fix y assume "y \<in> ran p"
        then obtain r where "p r = Some y" by (auto simp add: ran_def)
        then have "y = (raw r - mn) / (mx - mn)" using v [of r] by simp
        then show "y \<in> range (\<lambda>r. (raw r - mn) / (mx - mn))" by blast
      qed
      show "range (\<lambda>r. (raw r - mn) / (mx - mn)) \<subseteq> ran p"
      proof
        fix y assume "y \<in> range (\<lambda>r. (raw r - mn) / (mx - mn))"
        then obtain r where "y = (raw r - mn) / (mx - mn)" by blast
        then have "p r = Some y" using v [of r] by simp
        then show "y \<in> ran p" by (rule ranI)
      qed
    qed
    have finr: "finite (ran p)" unfolding ranv by (simp add: finite_ReactorType)
    have "mn \<in> range raw" unfolding mn_def using fin by (intro Min_in) auto
    then obtain a where a: "raw a = mn" by auto
    have "mx \<in> range raw" unfolding mx_def using fin by (intro Max_in) auto
    then obtain b where b: "raw b = mx" by auto
    have "p a = Some 0" using v [of a] a by simp
    then have zero_in: "0 \<in> ran p" by (rule ranI)
    have "p b = Some 1" using v [of b] b gt by simp
    then have one_in: "1 \<in> ran p" by (rule ranI)
    have ge0: "0 \<le> y" if "y \<in> ran p" for y
    proof -
      from that obtain r where "y = (raw r - mn) / (mx - mn)" unfolding ranv by blast
      then show ?thesis using lo [of r] gt by simp
    qed
    have le1: "y \<le> 1" if "y \<in> ran p" for y
    proof -
      from that obtain r where "y = (raw r - mn) / (mx - mn)" unfolding ranv by blast
      then show ?thesis using hi [of r] gt by simp
    qed
    have "Min (ran p) = 0" using finr zero_in ge0 by (intro Min_eqI) auto
    moreover have "Max (ran p) = 1" using finr one_in le1 by (intro Max_eqI) auto
    ultimately show ?thesis by simp
  qed
  show ?thesis
    using dom degenerate spread unfolding raw_def p_def by blast
qed

theorem reactor_profile_min_max_witness:
  "10 \<le> length (playerActions ((NewObserverSystem NewPlayer)
            \<lparr>playerActions := map (actionAt ActionRun) [0..<10]\<rparr>))
   \<and> Min (ran (reactorProfile (analyzeReactorProfile ((NewObserverSystem NewPlayer)
            \<lparr>playerActions := map (actionAt ActionRun) [0..<10]\<rparr>)))) = 0
   \<and> Max (ran (reactorProfile (analyzeReactorProfile ((NewObserverSystem NewPlayer)
            \<lparr>playerActions := map (actionAt ActionRun) [0..<10]\<rparr>)))) = 1
   \<and> (\<forall>r. reactorProfile (analyzeReactorProfile ((NewObserverSystem NewPlayer)
            \<lparr>playerActions := map (actionAt ActionMove) [0..<10]\<rparr>)) r = Some 0.5)"
proof -
  let ?run = "(NewObserverSystem NewPlayer)\<lparr>playerActions := map (actionAt ActionRun) [0..<10]\<rparr>"
  let ?mov = "(NewObserverSystem NewPlayer)\<lparr>playerActions := map (actionAt ActionMove) [0..<10]\<rparr>"
  have len: "10 \<le> length (playerActions ?run)" "10 \<le> length (playerActions ?mov)" by simp_all
  have cnt: "countActions t (map (actionAt t') [0..<10]) = (if t' = t then 10 else 0)" for t t'
    by (simp add: countActions_filter filter_map comp_def actionAt_def)
  have "rawReactorScore (playerActions ?run) ReactorPanic \<noteq> rawReactorScore (playerActions ?run) ReactorCautious"
    by (simp add: rawReactorScore_def cnt)
  then have d: "\<exists>r1 r2. rawReactorScore (playerActions ?run) r1 \<noteq> rawReactorScore (playerActions ?run) r2"
    by blast
  have e: "\<forall>r1 r2. rawReactorScore (playerActions ?mov) r1 = rawReactorScore (playerActions ?mov) r2"
  proof (intro allI)
    fix r1 r2
    have "rawReactorScore (playerActions ?mov) r = 0" for r
      by (cases r) (simp_all add: rawReactorScore_def cnt)
    then show "rawReactorScore (playerActions ?mov) r1 = rawReactorScore (playerActions ?mov) r2" by simp
  qed
  show ?thesis
    using reactor_profile_min_max [OF len(1)] reactor_profile_min_max [OF len(2)] d e len(1)
    by blast
qed

lemma last_keepLast: "0 < n \<Longrightarrow> xs \<noteq> [] \<Longrightarrow> last (keepLast n xs) = last xs"
  by (simp add: keepLast_def)

lemma keepLast_nonempty: "0 < n \<Longrightarrow> xs \<noteq> [] \<Longrightarrow> keepLast n xs \<noteq> []"
  by (auto simp add: keepLast_def)

subsection \<open>Movement events: run or move\<close>

text \<open>
  C9. For every player-moved event that carries a valid position, the handler appends an
  action at that position whose type is Run exactly when the event's value is a
  \<^verbatim>\<open>float64\<close> speed strictly greater than 1.5, and Move in every other case: a smaller
  speed, a missing value, or a value of another type.
\<close>

theorem recordMovement_run_or_move:
  assumes "ev_Position data = GoVector2D position"
  shows "playerActions (recordMovement obs data) \<noteq> []
     \<and> pa_Position (last (playerActions (recordMovement obs data))) = position
     \<and> pa_Type (last (playerActions (recordMovement obs data)))
         = (if (\<exists>speed. ev_Value data = GoFloat64 speed \<and> 1.5 < speed)
            then ActionRun else ActionMove)"
proof -
  have t: "movementActionType (ev_Value data)
        = (if (\<exists>speed. ev_Value data = GoFloat64 speed \<and> 1.5 < speed) then ActionRun else ActionMove)"
    by (cases "ev_Value data") (simp_all add: movementActionType_def)
  show ?thesis
    using assms
    by (simp add: recordMovement_def addPlayerAction_def Let_def last_keepLast keepLast_nonempty t
        del: if_split cong: if_cong)
qed

theorem recordMovement_run_or_move_witness:
  "pa_Type (last (playerActions (recordMovement initialObserver
      ((NewPlayerMovedEvent GoPlayer (GoVector2D zeroVector) (GoVector2D \<lparr>X = 3, Y = 4\<rparr>) 0)
         \<lparr>ev_Value := GoFloat64 2\<rparr>)))) = ActionRun
   \<and> pa_Type (last (playerActions (recordMovement initialObserver
      ((NewPlayerMovedEvent GoPlayer (GoVector2D zeroVector) (GoVector2D \<lparr>X = 3, Y = 4\<rparr>) 0)
         \<lparr>ev_Value := GoFloat64 1.5\<rparr>)))) = ActionMove
   \<and> pa_Type (last (playerActions (recordMovement initialObserver
      (NewPlayerMovedEvent GoPlayer (GoVector2D zeroVector) (GoVector2D \<lparr>X = 3, Y = 4\<rparr>) 0))))
       = ActionMove
   \<and> pa_Type (last (playerActions (recordMovement initialObserver
      ((NewPlayerMovedEvent GoPlayer (GoVector2D zeroVector) (GoVector2D \<lparr>X = 3, Y = 4\<rparr>) 0)
         \<lparr>ev_Value := GoInt 3\<rparr>)))) = ActionMove"
  using
    recordMovement_run_or_move [of "(NewPlayerMovedEvent GoPlayer (GoVector2D zeroVector)
        (GoVector2D \<lparr>X = 3, Y = 4\<rparr>) 0)\<lparr>ev_Value := GoFloat64 2\<rparr>" "\<lparr>X = 3, Y = 4\<rparr>" initialObserver]
    recordMovement_run_or_move [of "(NewPlayerMovedEvent GoPlayer (GoVector2D zeroVector)
        (GoVector2D \<lparr>X = 3, Y = 4\<rparr>) 0)\<lparr>ev_Value := GoFloat64 1.5\<rparr>" "\<lparr>X = 3, Y = 4\<rparr>" initialObserver]
    recordMovement_run_or_move [of "NewPlayerMovedEvent GoPlayer (GoVector2D zeroVector)
        (GoVector2D \<lparr>X = 3, Y = 4\<rparr>) 0" "\<lparr>X = 3, Y = 4\<rparr>" initialObserver]
    recordMovement_run_or_move [of "(NewPlayerMovedEvent GoPlayer (GoVector2D zeroVector)
        (GoVector2D \<lparr>X = 3, Y = 4\<rparr>) 0)\<lparr>ev_Value := GoInt 3\<rparr>" "\<lparr>X = 3, Y = 4\<rparr>" initialObserver]
  by (simp add: NewPlayerMovedEvent_def)

subsection \<open>Events whose required field is invalid\<close>

text \<open>
  C8. For every incoming event whose required field is missing or of the
  wrong type (no valid position in a player-moved event, a nil source in a player-damaged
  event, a value that is not a float in a sanity-changed event, a nil target in a
  player-interacted event, no valid scareType in a scare-triggered event) the handler is a
  silent no-op: it returns the Observer unchanged, so the action history, the
  fear-response histories and the observation context are what they were, and it does not
  panic.
\<close>

theorem malformed_required_field_is_noop:
  assumes "requiredFieldInvalid data"
  shows "handleEvent obs data = Inr obs"
proof (cases "ev_Type data")
  case EventPlayerMoved
  then show ?thesis using assms
    by (cases "ev_Position data") (simp_all add: handleEvent_def requiredFieldInvalid_def recordMovement_def)
next
  case EventPlayerDamaged
  then show ?thesis using assms
    by (simp add: handleEvent_def requiredFieldInvalid_def recordDamage_def)
next
  case EventPlayerInteracted
  then show ?thesis using assms
    by (simp add: handleEvent_def requiredFieldInvalid_def recordInteraction_def)
next
  case EventPlayerSanityChanged
  then show ?thesis using assms
    by (cases "ev_Value data") (simp_all add: handleEvent_def requiredFieldInvalid_def recordSanityChange_def)
next
  case EventScareTriggered
  then show ?thesis using assms
    by (cases "customValue data ''scareType''")
       (simp_all add: handleEvent_def requiredFieldInvalid_def recordScareResponse_def)
qed (use assms in \<open>simp_all add: requiredFieldInvalid_def\<close>)

theorem malformed_required_field_is_noop_witness:
  "handleEvent initialObserver (NewPlayerMovedEvent GoPlayer (GoVector2D zeroVector) GoNil 0)
     = Inr initialObserver
   \<and> handleEvent initialObserver
       ((NewPlayerSanityChangedEvent GoPlayer 100 90 0)\<lparr>ev_Value := GoString ''-10''\<rparr>)
     = Inr initialObserver
   \<and> handleEvent initialObserver (NewScareEvent (GoInt 2) GoNil GoNil 0.5 0)
     = Inr initialObserver
   \<and> handleEvent initialObserver ((NewScareEvent GoNil GoNil GoNil 0.5 0)\<lparr>ev_Custom := None\<rparr>)
     = Inr initialObserver"
  using
    malformed_required_field_is_noop [of "NewPlayerMovedEvent GoPlayer (GoVector2D zeroVector) GoNil 0" initialObserver]
    malformed_required_field_is_noop [of "(NewPlayerSanityChangedEvent GoPlayer 100 90 0)\<lparr>ev_Value := GoString ''-10''\<rparr>" initialObserver]
    malformed_required_field_is_noop [of "NewScareEvent (GoInt 2) GoNil GoNil 0.5 0" initialObserver]
    malformed_required_field_is_noop [of "(NewScareEvent GoNil GoNil GoNil 0.5 0)\<lparr>ev_Custom := None\<rparr>" initialObserver]
  by (simp add: requiredFieldInvalid_def NewPlayerMovedEvent_def NewPlayerSanityChangedEvent_def
      NewScareEvent_def customValue_def customLookup_def)

text \<open>
  The no-op does not extend to every type-mismatched payload. A scare-triggered event
  with a valid scare type and a string where the intensity should be is recorded with the
  default intensity 0.5: the response history of the isolation fear gains an entry and
  the time since the last scare is reset.
\<close>

theorem mistyped_intensity_is_recorded:
  "handleEvent initialObserver whisperWithTextIntensity \<noteq> Inr initialObserver
   \<and> fearResponses initialObserver FearIsolation = None
   \<and> fearResponses (recordScareResponse initialObserver whisperWithTextIntensity) FearIsolation
       = Some [newFearResponse FearIsolation 0.5 0]
   \<and> TimeSinceLastScare (o_context initialObserver) = 60 * Second
   \<and> TimeSinceLastScare (o_context (recordScareResponse initialObserver whisperWithTextIntensity)) = 0"
proof -
  have a: "fearResponses initialObserver FearIsolation = None"
    by (simp add: initialObserver_def Initialize_def NewObserverSystem_def)
  have b: "fearResponses (recordScareResponse initialObserver whisperWithTextIntensity) FearIsolation
       = Some [newFearResponse FearIsolation 0.5 0]"
    by (simp add: recordScareResponse_def whisperWithTextIntensity_def NewScareEvent_def
        customValue_def customLookup_def mapScareEventToFearType_def Let_def
        recordFearResponse_def keepLast_def newFearResponse_def
        initialObserver_def Initialize_def NewObserverSystem_def)
  have c: "TimeSinceLastScare (o_context initialObserver) = 60 * Second"
    by (simp add: initialObserver_def Initialize_def NewObserverSystem_def)
  have d: "TimeSinceLastScare (o_context (recordScareResponse initialObserver whisperWithTextIntensity)) = 0"
    by (simp add: recordScareResponse_def whisperWithTextIntensity_def NewScareEvent_def
        customValue_def customLookup_def Let_def)
  have "recordScareResponse initialObserver whisperWithTextIntensity \<noteq> initialObserver"
    using a b by auto
  then have "handleEvent initialObserver whisperWithTextIntensity \<noteq> Inr initialObserver"
    by (simp add: handleEvent_def whisperWithTextIntensity_def NewScareEvent_def)
  then show ?thesis using a b c d by simp
qed

lemma updateFearKind_fearResponses [simp]:
  "fearResponses (updateFearKind obs j) = fearResponses obs"
  by (simp add: updateFearKind_def Let_def split: option.splits)

lemma updateFearKind_responsesOf [simp]:
  "responsesOf (updateFearKind obs j) k = responsesOf obs k"
  by (simp add: responsesOf_def)

lemma updateFearKind_other:
  "j \<noteq> k \<Longrightarrow> fearProfile (updateFearKind obs j) k = fearProfile obs k"
  by (simp add: updateFearKind_def Let_def split: option.splits)

lemma updateFearKind_same:
  "fearProfile (updateFearKind obs k) k =
     (if responsesOf obs k = [] then fearProfile obs k
      else Some (fearProfileValue obs k * 0.7 + meanStrength (responsesOf obs k) * 0.3))"
  by (simp add: updateFearKind_def responsesOf_def meanStrength_def Let_def split: option.splits)

lemma foldl_updateFearKind:
  "distinct ks \<Longrightarrow>
   fearProfile (foldl updateFearKind obs ks) k =
     (if k \<in> set ks \<and> responsesOf obs k \<noteq> []
      then Some (fearProfileValue obs k * 0.7 + meanStrength (responsesOf obs k) * 0.3)
      else fearProfile obs k)"
proof (induction ks arbitrary: obs)
  case Nil
  show ?case by simp
next
  case (Cons j ks)
  have d: "distinct ks" and nj: "j \<notin> set ks" using Cons.prems by simp_all
  show ?case
  proof (cases "k = j")
    case True
    then have "k \<notin> set ks" using nj by simp
    then show ?thesis
      using Cons.IH [OF d, of "updateFearKind obs j"] True by (simp add: updateFearKind_same)
  next
    case False
    then have "fearProfileValue (updateFearKind obs j) k = fearProfileValue obs k"
      by (simp add: fearProfileValue_def updateFearKind_other)
    then show ?thesis using False by (simp add: Cons.IH [OF d] updateFearKind_other)
  qed
qed

lemma fearTypes_complete: "distinct fearTypes" "k \<in> set fearTypes"
  by (simp add: fearTypes_def, cases k) (simp_all add: fearTypes_def)

lemma analyzeFearProfile_value:
  "fearProfile (analyzeFearProfile obs) k =
     (if responsesOf obs k = [] then fearProfile obs k
      else Some (fearProfileValue obs k * 0.7 + meanStrength (responsesOf obs k) * 0.3))"
proof (cases "list_all (\<lambda>k. fearResponses obs k = None) fearTypes")
  case True
  then have "fearResponses obs k = None"
    using fearTypes_complete(2) [of k] by (simp add: list_all_iff)
  then show ?thesis using True by (simp add: analyzeFearProfile_def responsesOf_def)
next
  case False
  then show ?thesis
    by (simp add: analyzeFearProfile_def foldl_updateFearKind fearTypes_complete)
qed

lemma analyzeFearProfile_fearResponses [simp]:
  "fearResponses (analyzeFearProfile obs) = fearResponses obs"
proof -
  have "fearResponses (foldl updateFearKind obs ks) = fearResponses obs" for ks
    by (induction ks arbitrary: obs) simp_all
  then show ?thesis by (simp add: analyzeFearProfile_def)
qed

lemma updateFearKind_context [simp]:
  "o_context (updateFearKind obs j) = o_context obs"
  "o_player (updateFearKind obs j) = o_player obs"
  by (simp_all add: updateFearKind_def Let_def split: option.splits)

lemma analyzeFearProfile_context:
  "o_context (analyzeFearProfile obs) = o_context obs"
  "o_player (analyzeFearProfile obs) = o_player obs"
proof -
  have "o_context (foldl updateFearKind obs ks) = o_context obs
      \<and> o_player (foldl updateFearKind obs ks) = o_player obs" for ks
    by (induction ks arbitrary: obs) simp_all
  then show "o_context (analyzeFearProfile obs) = o_context obs"
    and "o_player (analyzeFearProfile obs) = o_player obs"
    by (simp_all add: analyzeFearProfile_def)
qed

lemma analyzeReactorProfile_fear [simp]:
  "fearProfile (analyzeReactorProfile obs) = fearProfile obs"
  "fearResponses (analyzeReactorProfile obs) = fearResponses obs"
  by (simp_all add: analyzeReactorProfile_def)

lemma predictActions_fear [simp]:
  "fearProfile (predictActions obs order) = fearProfile obs"
  "fearResponses (predictActions obs order) = fearResponses obs"
  by (simp_all add: predictActions_def Let_def)

lemma AnalyzePlayerBehavior_fearResponses:
  "fearResponses (AnalyzePlayerBehavior obs order) = fearResponses obs"
  by (simp add: AnalyzePlayerBehavior_def)

lemma AnalyzePlayerBehavior_fearProfile:
  "fearProfile (AnalyzePlayerBehavior obs order) k =
     (if responsesOf obs k = [] then fearProfile obs k
      else Some (fearProfileValue obs k * 0.7 + meanStrength (responsesOf obs k) * 0.3))"
  by (simp add: AnalyzePlayerBehavior_def analyzeFearProfile_value responsesOf_def fearProfileValue_def)

lemma afterSanityDrop_state:
  "v < 100 \<Longrightarrow>
     fearResponses (afterSanityDrop (Finite v))
       = [FearUnknown \<mapsto>
            [newFearResponse FearUnknown (Finite ((100 - v) / 20)) (Finite (100 - v))]]
   \<and> fearProfile (afterSanityDrop (Finite v)) = fearProfile initialObserver"
  by (simp add: afterSanityDrop_def recordSanityChange_def NewPlayerSanityChangedEvent_def
      customValue_def customLookup_def floatOrZero_def determineFearType_def Let_def
      recordFearResponse_def keepLast_def initialObserver_def Initialize_def NewObserverSystem_def
      newFearResponse_def abs_if)

lemma initialObserver_fearProfile: "fearProfile initialObserver k = Some 0.5"
  by (cases k) (simp_all add: initialObserver_def Initialize_def NewObserverSystem_def fearTypes_def)

subsection \<open>The fear profile across analysis cycles\<close>

text \<open>
  C3. For every fear kind whose response history is empty (no response of
  that kind is held by the Observer), an analysis cycle leaves the kind's fear-profile
  entry exactly as it was.
\<close>

theorem fear_profile_unchanged_without_responses:
  assumes "responsesOf obs k = []"
  shows "fearProfile (AnalyzePlayerBehavior obs order) k = fearProfile obs k"
  using assms by (simp add: AnalyzePlayerBehavior_fearProfile)

theorem fear_profile_unchanged_without_responses_witness:
  "responsesOf (afterSanityDrop 80) FearDarkness = []
   \<and> fearProfile (AnalyzePlayerBehavior (afterSanityDrop 80) reactorTypes) FearDarkness = Some 0.5"
proof -
  have r: "responsesOf (afterSanityDrop 80) FearDarkness = []"
    using afterSanityDrop_state [of 80] by (simp add: responsesOf_def)
  show ?thesis
    using fear_profile_unchanged_without_responses [OF r, of reactorTypes] r afterSanityDrop_state [of 80]
    by (simp add: initialObserver_fearProfile)
qed

text \<open>
  A kind with a non-empty history is smoothed again in every cycle, whether or not a
  response has arrived since the previous one: after a single sanity drop from 100 to 80
  the first cycle moves the entry of the unknown fear from 0.5 to 0.65, and a second
  cycle, with the same histories, moves it to 0.755.
\<close>

theorem stale_responses_move_fear_profile:
  "fearResponses (AnalyzePlayerBehavior (afterSanityDrop 80) reactorTypes)
     = fearResponses (afterSanityDrop 80)
   \<and> fearProfile (AnalyzePlayerBehavior (afterSanityDrop 80) reactorTypes) FearUnknown = Some 0.65
   \<and> fearProfile (AnalyzePlayerBehavior (AnalyzePlayerBehavior (afterSanityDrop 80) reactorTypes)
        reactorTypes) FearUnknown = Some 0.755"
proof -
  let ?c1 = "AnalyzePlayerBehavior (afterSanityDrop (Finite 80)) reactorTypes"
  have r0: "responsesOf (afterSanityDrop (Finite 80)) FearUnknown
              = [newFearResponse FearUnknown (Finite 1) (Finite 20)]"
    using afterSanityDrop_state [of 80] by (simp add: responsesOf_def)
  have r1: "responsesOf ?c1 FearUnknown = [newFearResponse FearUnknown (Finite 1) (Finite 20)]"
    using r0 by (simp add: responsesOf_def AnalyzePlayerBehavior_fearResponses)
  have m: "meanStrength [newFearResponse FearUnknown (Finite 1) (Finite 20)] = Finite 1"
    by (simp add: meanStrength_def newFearResponse_def)
  have p1: "fearProfile ?c1 FearUnknown = Some (Finite 0.65)"
    using afterSanityDrop_state [of 80]
    by (simp add: AnalyzePlayerBehavior_fearProfile r0 m fearProfileValue_def initialObserver_fearProfile)
  have p2: "fearProfile (AnalyzePlayerBehavior ?c1 reactorTypes) FearUnknown = Some (Finite 0.755)"
    by (simp add: AnalyzePlayerBehavior_fearProfile [of ?c1] r1 m fearProfileValue_def p1)
  show ?thesis using p1 p2 by (simp add: AnalyzePlayerBehavior_fearResponses)
qed

subsection \<open>The range of the fear profile\<close>

text \<open>
  C4. The fear profile starts at 0.5 for every kind, but it does not stay within [0,1]
  for every sequence of events. A sanity-changed event that reports a drop from 100 to 0
  is recorded with strength \<open>100 / 20 = 5\<close>, although the source documents the strength
  of a response as a number from 0 to 1 and the division as a normalisation to that
  range, and the next analysis cycle sets the entry of the unknown fear to
  \<open>0.5 * 0.7 + 5 * 0.3 = 1.85\<close>.
\<close>

theorem fear_profile_exceeds_one:
  "handleEvent initialObserver (NewPlayerSanityChangedEvent GoPlayer 100 0 0) = Inr (afterSanityDrop 0)
   \<and> fearProfile initialObserver FearUnknown = Some 0.5
   \<and> StrengthOfFear (hd (responsesOf (afterSanityDrop 0) FearUnknown)) = 5
   \<and> fearProfile (AnalyzePlayerBehavior (afterSanityDrop 0) reactorTypes) FearUnknown = Some 1.85"
proof -
  have r0: "responsesOf (afterSanityDrop (Finite 0)) FearUnknown
              = [newFearResponse FearUnknown (Finite 5) (Finite 100)]"
    using afterSanityDrop_state [of 0] by (simp add: responsesOf_def)
  have m: "meanStrength [newFearResponse FearUnknown (Finite 5) (Finite 100)] = Finite 5"
    by (simp add: meanStrength_def newFearResponse_def)
  have p: "fearProfile (AnalyzePlayerBehavior (afterSanityDrop 0) reactorTypes) FearUnknown = Some 1.85"
    using afterSanityDrop_state [of 0]
    by (simp add: AnalyzePlayerBehavior_fearProfile r0 m fearProfileValue_def initialObserver_fearProfile)
  have h: "handleEvent initialObserver (NewPlayerSanityChangedEvent GoPlayer 100 0 0) = Inr (afterSanityDrop 0)"
    by (simp add: handleEvent_def afterSanityDrop_def NewPlayerSanityChangedEvent_def)
  show ?thesis using p h r0 by (simp add: initialObserver_fearProfile newFearResponse_def)
qed

lemma insertionStep_set: "set (insertionStep lt x ps) = insert x (set ps)"
  by (induction ps) auto

lemma sortSlice_set: "set (sortSlice lt xs) = set xs"
proof -
  have "set (foldl (\<lambda>sorted x. insertionStep lt x sorted) acc xs) = set acc \<union> set xs" for acc
    by (induction xs arbitrary: acc) (simp_all add: insertionStep_set)
  then show ?thesis by (simp add: sortSlice_def)
qed

lemma clamp_bounds:
  "x \<noteq> NaN \<Longrightarrow> 0.3 \<le> goMax 0.3 (goMin 1.0 x) \<and> goMax 0.3 (goMin 1.0 x) \<le> 1.0"
  by (cases x) (simp_all add: goMax_def goMin_def)

lemma clamp_NaN: "goMax 0.3 (goMin 1.0 NaN) = NaN"
  by (simp add: goMax_def goMin_def)

lemma intensity_product_finite:
  "isFinite fear \<Longrightarrow> isFinite sanity \<Longrightarrow> fear * (1.0 + (1.0 - sanity / 100.0)) \<noteq> NaN"
  by (cases fear; cases sanity) (simp_all add: isFinite_def)

lemma generateRecommendation_intensity:
  assumes "generateRecommendationForFearType obs fearType rnd = Inr r"
  shows "FearTarget r = fearType
     \<and> sr_Intensity r = recommendedIntensity (fearProfileValue obs fearType) (CurrentSanity (o_context obs))"
  using assms
  by (auto simp add: generateRecommendationForFearType_def Let_def split: sum.splits option.splits)

lemma generateRecommendation_recommendedScares [simp]:
  "generateRecommendationForFearType (obs\<lparr>recommendedScares := rs\<rparr>) fearType rnd
     = generateRecommendationForFearType obs fearType rnd"
  by (simp add: generateRecommendationForFearType_def fearProfileValue_def Let_def
      split: sum.splits option.splits)

lemma appendRecommendations_inv:
  assumes "appendRecommendations obs rnd ks = Inr obs'"
  shows "fearProfile obs' = fearProfile obs \<and> o_context obs' = o_context obs
     \<and> (\<forall>r \<in> set (recommendedScares obs').
           r \<in> set (recommendedScares obs)
           \<or> sr_Intensity r = recommendedIntensity (fearProfileValue obs (FearTarget r))
                                 (CurrentSanity (o_context obs)))"
  using assms
proof (induction ks arbitrary: obs)
  case Nil
  then show ?case by simp
next
  case (Cons k ks)
  from Cons.prems obtain r where
    g: "generateRecommendationForFearType obs k rnd = Inr r" and
    rest: "appendRecommendations (obs\<lparr>recommendedScares := recommendedScares obs @ [r]\<rparr>) rnd ks = Inr obs'"
    by (auto split: sum.splits)
  have ri: "sr_Intensity r = recommendedIntensity (fearProfileValue obs (FearTarget r))
                                 (CurrentSanity (o_context obs))"
    using generateRecommendation_intensity [OF g] by simp
  show ?case
    using Cons.IH [OF rest] ri by (auto simp add: fearProfileValue_def)
qed

subsection \<open>The intensity of a recommendation\<close>

text \<open>
  C5. Every recommendation that the recommendation pass produces has the intensity
  \<^verbatim>\<open>math.Max(0.3, math.Min(1.0, fearProfile*(1 + (1 - sanity/100))))\<close> of its fear kind.
  The intensity lies within [0.3, 1.0] whenever that product is not NaN, in particular
  for every fear-profile value and every current sanity that are numbers, however far
  outside their nominal ranges; when the product is NaN, the intensity is NaN.
\<close>

theorem recommendation_intensity_bounds:
  assumes "GenerateScareRecommendations obs order rnd = Inr obs'"
  shows "\<forall>r \<in> set (recommendedScares obs').
           sr_Intensity r
             = goMax 0.3 (goMin 1.0 (fearProfileValue obs (FearTarget r)
                                      * (1.0 + (1.0 - CurrentSanity (o_context obs) / 100.0))))
           \<and> (fearProfileValue obs (FearTarget r)
                 * (1.0 + (1.0 - CurrentSanity (o_context obs) / 100.0)) \<noteq> NaN
               \<longrightarrow> 0.3 \<le> sr_Intensity r \<and> sr_Intensity r \<le> 1.0)
           \<and> (isFinite (fearProfileValue obs (FearTarget r))
                 \<and> isFinite (CurrentSanity (o_context obs))
               \<longrightarrow> 0.3 \<le> sr_Intensity r \<and> sr_Intensity r \<le> 1.0)
           \<and> (fearProfileValue obs (FearTarget r)
                 * (1.0 + (1.0 - CurrentSanity (o_context obs) / 100.0)) = NaN
               \<longrightarrow> sr_Intensity r = NaN)"
proof
  fix r assume r: "r \<in> set (recommendedScares obs')"
  let ?o1 = "obs\<lparr>recommendedScares := []\<rparr>"
  let ?x = "fearProfileValue obs (FearTarget r)
              * (1.0 + (1.0 - CurrentSanity (o_context obs) / 100.0))"
  from assms obtain obs2 where
    a: "appendRecommendations ?o1 rnd (getEffectiveFearTypes ?o1 order) = Inr obs2" and
    o': "obs' = obs2\<lparr>recommendedScares :=
                  sortSlice (\<lambda>i j. Priority i > Priority j) (recommendedScares obs2)\<rparr>"
    by (auto simp add: GenerateScareRecommendations_def Let_def split: sum.splits)
  have "r \<in> set (recommendedScares obs2)" using r o' by (simp add: sortSlice_set)
  then have "sr_Intensity r = recommendedIntensity (fearProfileValue obs (FearTarget r))
                                 (CurrentSanity (o_context obs))"
    using appendRecommendations_inv [OF a] by (auto simp add: fearProfileValue_def)
  then have i: "sr_Intensity r = goMax 0.3 (goMin 1.0 ?x)"
    by (simp add: recommendedIntensity_def Let_def)
  have finite: "?x \<noteq> NaN"
    if "isFinite (fearProfileValue obs (FearTarget r)) \<and> isFinite (CurrentSanity (o_context obs))"
    using that intensity_product_finite by blast
  show "sr_Intensity r = goMax 0.3 (goMin 1.0 ?x)
           \<and> (?x \<noteq> NaN \<longrightarrow> 0.3 \<le> sr_Intensity r \<and> sr_Intensity r \<le> 1.0)
           \<and> (isFinite (fearProfileValue obs (FearTarget r))
                 \<and> isFinite (CurrentSanity (o_context obs))
               \<longrightarrow> 0.3 \<le> sr_Intensity r \<and> sr_Intensity r \<le> 1.0)
           \<and> (?x = NaN \<longrightarrow> sr_Intensity r = NaN)"
    using clamp_bounds [of ?x] clamp_NaN finite unfolding i by metis
qed

lemma fearProfileValue_recommendedScares [simp]:
  "fearProfileValue (obs\<lparr>recommendedScares := rs\<rparr>) k = fearProfileValue obs k"
  by (simp add: fearProfileValue_def)

lemma priorityFactor_zero: "priorityFactor 0 = 0.5"
  by (simp add: priorityFactor_def Seconds_def)

lemma extremeObserver_fields:
  "fearProfileValue extremeObserver k
     = (case k of FearGore \<Rightarrow> 1000 | FearChasing \<Rightarrow> 0.5 | _ \<Rightarrow> 0.1)"
  "fearProfile extremeObserver k \<noteq> None"
  "CurrentSanity (o_context extremeObserver) = 100"
  "TimeSinceLastScare (o_context extremeObserver) = 0"
  "o_player extremeObserver = Some NewPlayer"
  by (simp_all add: extremeObserver_def fearProfileValue_def initialObserver_def Initialize_def
      NewObserverSystem_def NewPlayer_def MaxSanity_def)

lemma extremeObserver_effective:
  "getEffectiveFearTypes (extremeObserver\<lparr>recommendedScares := []\<rparr>) fearTypes
     = [FearGore, FearChasing, FearDarkness]"
  by (simp add: getEffectiveFearTypes_def extremeObserver_fields fearTypes_def Let_def
      sortSlice_def)

lemma extremeObserver_generate:
  "generateRecommendationForFearType extremeObserver FearGore 0
     = Inr (recommendationAfterScare EventHallucination FearGore 1 500)"
  "generateRecommendationForFearType extremeObserver FearChasing 0
     = Inr (recommendationAfterScare EventCreatureAppearance FearChasing 0.5 0.25)"
  "generateRecommendationForFearType extremeObserver FearDarkness 0
     = Inr (recommendationAfterScare EventEnvironmentChange FearDarkness 0.3 0.05)"
  by (simp_all add: generateRecommendationForFearType_def extremeObserver_fields
      chooseScareTypeForFearType_def recommendedIntensity_def priorityFactor_zero Second_def
      Let_def recommendationAfterScare_def goMax_def goMin_def)

lemma extremeObserver_recommendations:
  "GenerateScareRecommendations extremeObserver fearTypes 0
     = Inr (extremeObserver\<lparr>recommendedScares :=
              [recommendationAfterScare EventHallucination FearGore 1 500,
               recommendationAfterScare EventCreatureAppearance FearChasing 0.5 0.25,
               recommendationAfterScare EventEnvironmentChange FearDarkness 0.3 0.05]\<rparr>)"
  by (simp add: GenerateScareRecommendations_def extremeObserver_effective Let_def
      extremeObserver_generate)
     (simp add: recommendationAfterScare_def sortSlice_def)

theorem recommendation_intensity_bounds_witness:
  "GenerateScareRecommendations extremeObserver fearTypes 0
     = Inr (extremeObserver\<lparr>recommendedScares :=
              [recommendationAfterScare EventHallucination FearGore 1 500,
               recommendationAfterScare EventCreatureAppearance FearChasing 0.5 0.25,
               recommendationAfterScare EventEnvironmentChange FearDarkness 0.3 0.05]\<rparr>)
   \<and> isFinite (fearProfileValue extremeObserver FearGore)
   \<and> isFinite (CurrentSanity (o_context extremeObserver))
   \<and> 0.3 \<le> sr_Intensity (recommendationAfterScare EventEnvironmentChange FearDarkness 0.3 0.05)
   \<and> sr_Intensity (recommendationAfterScare EventHallucination FearGore 1 500) \<le> 1.0"
  using recommendation_intensity_bounds [OF extremeObserver_recommendations]
    extremeObserver_recommendations
  by (simp add: extremeObserver_fields isFinite_def recommendationAfterScare_def)

lemma nanObserver_fields:
  "fearProfileValue nanObserver k = (if k = FearIsolation then NaN else 0.5)"
  "fearProfile nanObserver k \<noteq> None"
  "CurrentSanity (o_context nanObserver) = 100"
  "TimeSinceLastScare (o_context nanObserver) = 0"
  "o_player nanObserver = Some NewPlayer"
proof -
  let ?e = "NewScareEvent (GoScareEventType EventWhisper) GoNil GoNil NaN 0"
  let ?o = "recordScareResponse initialObserver ?e"
  have resp: "fearResponses ?o = [FearIsolation \<mapsto> [newFearResponse FearIsolation NaN 0]]"
    by (simp add: recordScareResponse_def NewScareEvent_def customValue_def customLookup_def
        mapScareEventToFearType_def Let_def recordFearResponse_def keepLast_def
        initialObserver_def Initialize_def NewObserverSystem_def newFearResponse_def)
  have prof: "fearProfile ?o = fearProfile initialObserver"
    by (simp add: recordScareResponse_def NewScareEvent_def customValue_def customLookup_def
        Let_def recordFearResponse_def)
  have m: "meanStrength [newFearResponse FearIsolation NaN (Finite 0)] = NaN"
    by (simp add: meanStrength_def newFearResponse_def)
  have p: "fearProfile nanObserver k = Some (if k = FearIsolation then NaN else 0.5)"
    by (simp add: nanObserver_def AnalyzePlayerBehavior_fearProfile responsesOf_def resp prof m
        fearProfileValue_def initialObserver_fearProfile)
  show "fearProfileValue nanObserver k = (if k = FearIsolation then NaN else 0.5)"
    by (simp add: fearProfileValue_def p)
  show "fearProfile nanObserver k \<noteq> None" by (simp add: p)
  have c: "o_context nanObserver = (o_context initialObserver)\<lparr>TimeSinceLastScare := 0\<rparr>"
    by (simp add: nanObserver_def AnalyzePlayerBehavior_def predictActions_def
        analyzeFearProfile_context analyzeReactorProfile_def recordScareResponse_def
        NewScareEvent_def customValue_def customLookup_def Let_def recordFearResponse_def)
  show "CurrentSanity (o_context nanObserver) = 100"
    by (simp add: c initialObserver_def Initialize_def NewObserverSystem_def NewPlayer_def
        MaxSanity_def)
  show "TimeSinceLastScare (o_context nanObserver) = 0" by (simp add: c)
  show "o_player nanObserver = Some NewPlayer"
    by (simp add: nanObserver_def AnalyzePlayerBehavior_def predictActions_def
        analyzeFearProfile_context analyzeReactorProfile_def recordScareResponse_def
        NewScareEvent_def customValue_def customLookup_def Let_def recordFearResponse_def
        initialObserver_def Initialize_def NewObserverSystem_def)
qed

lemma nanObserver_effective:
  "getEffectiveFearTypes (nanObserver\<lparr>recommendedScares := []\<rparr>) isolationFirst
     = [FearIsolation, FearDarkness, FearCreatures]"
  by (simp add: getEffectiveFearTypes_def nanObserver_fields isolationFirst_def Let_def
      sortSlice_def)

lemma nanObserver_generate:
  "generateRecommendationForFearType nanObserver FearIsolation 0
     = Inr (recommendationAfterScare EventWhisper FearIsolation NaN NaN)"
  "generateRecommendationForFearType nanObserver FearDarkness 0
     = Inr (recommendationAfterScare EventEnvironmentChange FearDarkness 0.5 0.25)"
  "generateRecommendationForFearType nanObserver FearCreatures 0
     = Inr (recommendationAfterScare EventCreatureAppearance FearCreatures 0.5 0.25)"
  by (simp_all add: generateRecommendationForFearType_def nanObserver_fields
      chooseScareTypeForFearType_def recommendedIntensity_def priorityFactor_zero Second_def
      Let_def recommendationAfterScare_def goMax_def goMin_def)

text \<open>
  The bound does not hold for every fear-profile value. A scare-triggered event whose
  intensity is NaN is recorded as it is, and the next analysis cycle makes the entry of
  the isolation fear NaN. When the runtime enumerates that key among the first three, the
  recommendation pass yields a recommendation for it whose intensity is NaN, which is
  neither at least 0.3 nor at most 1.0.
\<close>

theorem NaN_profile_gives_NaN_intensity:
  "handleEvent initialObserver (NewScareEvent (GoScareEventType EventWhisper) GoNil GoNil NaN 0)
     = Inr (recordScareResponse initialObserver
              (NewScareEvent (GoScareEventType EventWhisper) GoNil GoNil NaN 0))
   \<and> fearProfile initialObserver FearIsolation = Some 0.5
   \<and> fearProfile nanObserver FearIsolation = Some NaN
   \<and> GenerateScareRecommendations nanObserver isolationFirst 0
       = Inr (nanObserver\<lparr>recommendedScares :=
                [recommendationAfterScare EventWhisper FearIsolation NaN NaN,
                 recommendationAfterScare EventEnvironmentChange FearDarkness 0.5 0.25,
                 recommendationAfterScare EventCreatureAppearance FearCreatures 0.5 0.25]\<rparr>)
   \<and> sr_Intensity (recommendationAfterScare EventWhisper FearIsolation NaN NaN) = NaN
   \<and> \<not> 0.3 \<le> sr_Intensity (recommendationAfterScare EventWhisper FearIsolation NaN NaN)
   \<and> \<not> sr_Intensity (recommendationAfterScare EventWhisper FearIsolation NaN NaN) \<le> 1.0"
proof -
  have g: "GenerateScareRecommendations nanObserver isolationFirst 0
       = Inr (nanObserver\<lparr>recommendedScares :=
                [recommendationAfterScare EventWhisper FearIsolation NaN NaN,
                 recommendationAfterScare EventEnvironmentChange FearDarkness 0.5 0.25,
                 recommendationAfterScare EventCreatureAppearance FearCreatures 0.5 0.25]\<rparr>)"
    by (simp add: GenerateScareRecommendations_def nanObserver_effective Let_def
        nanObserver_generate)
       (simp add: recommendationAfterScare_def sortSlice_def)
  have p: "fearProfile nanObserver FearIsolation = Some NaN"
    using nanObserver_fields(1) [of FearIsolation] nanObserver_fields(2) [of FearIsolation]
    by (auto simp add: fearProfileValue_def split: option.splits)
  have h: "handleEvent initialObserver
             (NewScareEvent (GoScareEventType EventWhisper) GoNil GoNil NaN 0)
           = Inr (recordScareResponse initialObserver
                    (NewScareEvent (GoScareEventType EventWhisper) GoNil GoNil NaN 0))"
    by (simp add: handleEvent_def NewScareEvent_def)
  show ?thesis
    using g p h by (simp add: initialObserver_fearProfile recommendationAfterScare_def)
qed

lemma mergePattern_names:
  "map Name (mergePattern ps q)
     = (if Name q \<in> set (map Name ps) then map Name ps else map Name ps @ [Name q])"
  by (induction ps) auto

lemma mergePattern_filter_other:
  "Name q \<noteq> n \<Longrightarrow>
     filter (\<lambda>p. Name p = n) (mergePattern ps q) = filter (\<lambda>p. Name p = n) ps"
  by (induction ps) auto

lemma mergePattern_fresh:
  "Name q \<notin> set (map Name ps) \<Longrightarrow> mergePattern ps q = ps @ [q]"
  by (induction ps) auto

lemma mergePattern_twice:
  assumes "Name q \<notin> set (map Name ps)" and "Name q' = Name q"
  shows "mergePattern (mergePattern ps q) q' = ps @ [q\<lparr>Weight := (Weight q + Weight q') / 2\<rparr>]"
proof -
  have "mergePattern (ps @ [q]) q' = ps @ [q\<lparr>Weight := (Weight q + Weight q') / 2\<rparr>]"
    using assms by (induction ps) auto
  then show ?thesis using assms(1) by (simp add: mergePattern_fresh)
qed

lemma addPattern_distinct:
  "distinct (map Name (detectedPatterns a)) \<Longrightarrow>
     distinct (map Name (detectedPatterns (addPattern a q)))"
  by (simp add: addPattern_def mergePattern_names)

lemma addPattern_fields [simp]:
  "movementAnalysis (addPattern a q) = movementAnalysis a"
  "interactionAnalysis (addPattern a q) = interactionAnalysis a"
  by (simp_all add: addPattern_def)

lemma detectMovementPatterns_distinct:
  "distinct (map Name (detectedPatterns a)) \<Longrightarrow>
     distinct (map Name (detectedPatterns (detectMovementPatterns a)))"
  by (simp add: detectMovementPatterns_def Let_def addPattern_distinct)

lemma detectInteractionPatterns_distinct:
  "distinct (map Name (detectedPatterns a)) \<Longrightarrow>
     distinct (map Name (detectedPatterns (detectInteractionPatterns a)))"
  by (simp add: detectInteractionPatterns_def Let_def addPattern_distinct)

lemma detectFearResponsePatterns_distinct:
  "distinct (map Name (detectedPatterns a)) \<Longrightarrow>
     distinct (map Name (detectedPatterns (detectFearResponsePatterns a)))"
  by (simp add: detectFearResponsePatterns_def Let_def addPattern_distinct split: option.splits)

lemma distinct_map_sort_key:
  "distinct (map f (sort_key k xs)) = distinct (map f xs)"
  by (simp add: distinct_map)

lemma detectPatterns_distinct:
  "distinct (map Name (detectedPatterns (detectPatterns a)))"
  by (simp add: detectPatterns_def Let_def distinct_map_sort_key
      detectFearResponsePatterns_distinct detectInteractionPatterns_distinct
      detectMovementPatterns_distinct)

lemma detectPatterns_forgets:
  "detectPatterns (a\<lparr>detectedPatterns := previous\<rparr>) = detectPatterns (a\<lparr>detectedPatterns := []\<rparr>)"
  by (simp add: detectPatterns_def)


lemma addPattern_filter_other:
  "Name q \<noteq> n \<Longrightarrow>
     filter (\<lambda>p. Name p = n) (detectedPatterns (addPattern a q))
       = filter (\<lambda>p. Name p = n) (detectedPatterns a)"
  by (simp add: addPattern_def mergePattern_filter_other)

lemma detectMovementPatterns_explorer:
  assumes "detectedPatterns a = []"
  shows "filter (\<lambda>p. Name p = ''explorer'') (detectedPatterns (detectMovementPatterns a))
     = (if ExplorationArea (movementAnalysis a) > 500 \<and> PathRepetition (movementAnalysis a) < 2
        then [explorerPattern (0.8 - PathRepetition (movementAnalysis a) / 10)] else [])"
proof -
  have first: "filter (\<lambda>p. Name p = ''explorer'') (detectedPatterns (addPattern a (explorerPattern w)))
      = [explorerPattern w]" for w
    using assms by (simp add: addPattern_def explorerPattern_def)
  show ?thesis
    using assms first
    by (simp add: detectMovementPatterns_def Let_def addPattern_filter_other
        explorerPattern_def [symmetric])
qed

lemma detectInteractionPatterns_explorer:
  "filter (\<lambda>p. Name p = ''explorer'') (detectedPatterns (detectInteractionPatterns a))
     = filter (\<lambda>p. Name p = ''explorer'') (detectedPatterns a)"
  by (simp add: detectInteractionPatterns_def Let_def addPattern_filter_other)

lemma detectFearResponsePatterns_explorer:
  "filter (\<lambda>p. Name p = ''explorer'') (detectedPatterns (detectFearResponsePatterns a))
     = filter (\<lambda>p. Name p = ''explorer'') (detectedPatterns a)"
  by (simp add: detectFearResponsePatterns_def Let_def addPattern_filter_other split: option.splits)

lemma detect_fields [simp]:
  "movementAnalysis (detectMovementPatterns a) = movementAnalysis a"
  "movementAnalysis (detectInteractionPatterns a) = movementAnalysis a"
  "movementAnalysis (detectFearResponsePatterns a) = movementAnalysis a"
  by (simp_all add: detectMovementPatterns_def detectInteractionPatterns_def
      detectFearResponsePatterns_def Let_def split: option.splits)

lemma detectPatterns_explorer:
  "filter (\<lambda>p. Name p = ''explorer'') (detectedPatterns (detectPatterns a))
     = (if ExplorationArea (movementAnalysis a) > 500 \<and> PathRepetition (movementAnalysis a) < 2
        then [explorerPattern (0.8 - PathRepetition (movementAnalysis a) / 10)] else [])"
proof -
  have "filter (\<lambda>p. Name p = ''explorer'') (detectedPatterns (detectPatterns a))
      = sort_key (\<lambda>p. - Weight p)
          (filter (\<lambda>p. Name p = ''explorer'')
             (detectedPatterns (detectMovementPatterns (a\<lparr>detectedPatterns := []\<rparr>))))"
    by (simp add: detectPatterns_def Let_def filter_sort detectFearResponsePatterns_explorer
        detectInteractionPatterns_explorer)
  then show ?thesis
    by (simp add: detectMovementPatterns_explorer)
qed


subsection \<open>Patterns across detection cycles\<close>

text \<open>
  C7. Every detection cycle rebuilds the pattern list from the current
  analyses alone, whatever the list held before, and the rebuilt list has at most one
  entry for each name. So if a pattern with the same name is detected in two successive
  cycles with weights w1 and then w2, the list afterwards contains a single entry with
  that name whose weight is w2: for the explorer pattern, the single entry of that name
  has the weight \<open>0.8 - PathRepetition / 10\<close> of the cycle that has just run. The average
  of an old and a new weight is taken only within one cycle, when \<^verbatim>\<open>addPattern\<close> is
  called a second time with a name that the list being built already holds.
\<close>

theorem pattern_list_rebuilt_each_cycle:
  "detectPatterns (a\<lparr>detectedPatterns := previous\<rparr>) = detectPatterns (a\<lparr>detectedPatterns := []\<rparr>)
   \<and> distinct (map Name (detectedPatterns (detectPatterns (a\<lparr>detectedPatterns := previous\<rparr>))))
   \<and> (ExplorationArea (movementAnalysis a) > 500 \<and> PathRepetition (movementAnalysis a) < 2 \<longrightarrow>
        filter (\<lambda>p. Name p = ''explorer'')
          (detectedPatterns (detectPatterns (a\<lparr>detectedPatterns := previous\<rparr>)))
        = [explorerPattern (0.8 - PathRepetition (movementAnalysis a) / 10)])
   \<and> (Name q \<notin> set (map Name (detectedPatterns a)) \<and> Name q' = Name q \<longrightarrow>
        detectedPatterns (addPattern (addPattern a q) q')
        = detectedPatterns a @ [q\<lparr>Weight := (Weight q + Weight q') / 2\<rparr>])"
  by (simp add: detectPatterns_forgets [where a = a and previous = previous] detectPatterns_distinct
      detectPatterns_explorer addPattern_def mergePattern_twice)

theorem pattern_list_rebuilt_each_cycle_witness:
  "detectedPatterns secondCycleAnalyzer = [explorerPattern 0.8]
   \<and> ExplorationArea (movementAnalysis secondCycleAnalyzer) > 500
   \<and> PathRepetition (movementAnalysis secondCycleAnalyzer) < 2
   \<and> filter (\<lambda>p. Name p = ''explorer'')
        (detectedPatterns (detectPatterns
           (secondCycleAnalyzer\<lparr>detectedPatterns := [explorerPattern 0.8]\<rparr>)))
       = [explorerPattern 0.7]
   \<and> detectedPatterns (addPattern (addPattern firstCycleAnalyzer (explorerPattern 0.8))
        (explorerPattern 0.6)) = [explorerPattern 0.7]"
proof -
  have first: "detectedPatterns (detectPatterns firstCycleAnalyzer) = [explorerPattern 0.8]"
    by (simp add: detectPatterns_def detectMovementPatterns_def detectInteractionPatterns_def
        detectFearResponsePatterns_def firstCycleAnalyzer_def addPattern_def Let_def
        List.map_filter_def scareEventTypes_def explorerPattern_def)
  then have dp: "detectedPatterns secondCycleAnalyzer = [explorerPattern 0.8]"
    by (simp add: secondCycleAnalyzer_def)
  have m: "movementAnalysis secondCycleAnalyzer
        = (movementAnalysis firstCycleAnalyzer)\<lparr>PathRepetition := 1\<rparr>"
    by (simp add: secondCycleAnalyzer_def)
  have hyp: "ExplorationArea (movementAnalysis secondCycleAnalyzer) > 500"
    "PathRepetition (movementAnalysis secondCycleAnalyzer) < 2"
    "PathRepetition (movementAnalysis secondCycleAnalyzer) = 1"
    by (simp_all add: m firstCycleAnalyzer_def)
  have merge: "detectedPatterns (addPattern (addPattern firstCycleAnalyzer (explorerPattern 0.8))
        (explorerPattern 0.6)) = [explorerPattern 0.7]"
    using pattern_list_rebuilt_each_cycle [where a = firstCycleAnalyzer and previous = "[]"
        and q = "explorerPattern 0.8" and q' = "explorerPattern 0.6"]
    by (simp add: firstCycleAnalyzer_def explorerPattern_def)
  have imp: "ExplorationArea (movementAnalysis secondCycleAnalyzer) > 500
         \<and> PathRepetition (movementAnalysis secondCycleAnalyzer) < 2 \<longrightarrow>
       filter (\<lambda>p. Name p = ''explorer'')
        (detectedPatterns (detectPatterns
           (secondCycleAnalyzer\<lparr>detectedPatterns := [explorerPattern 0.8]\<rparr>)))
       = [explorerPattern (0.8 - PathRepetition (movementAnalysis secondCycleAnalyzer) / 10)]"
    using pattern_list_rebuilt_each_cycle [where a = secondCycleAnalyzer
        and previous = "[explorerPattern 0.8]" and q = "explorerPattern 0.8"
        and q' = "explorerPattern 0.6"]
    by blast
  have cycle: "filter (\<lambda>p. Name p = ''explorer'')
        (detectedPatterns (detectPatterns
           (secondCycleAnalyzer\<lparr>detectedPatterns := [explorerPattern 0.8]\<rparr>)))
       = [explorerPattern 0.7]"
    using imp hyp by simp
  show ?thesis using dp hyp(1,2) cycle merge by blast
qed

text \<open>
  Two successive cycles that detect the explorer pattern, with weight 0.8 and then with
  weight 0.7, leave one explorer entry of weight 0.7, not of the average 0.75.
\<close>

theorem successive_cycles_do_not_average:
  "map (\<lambda>p. (Name p, Weight p)) (detectedPatterns (detectPatterns firstCycleAnalyzer))
     = [(''explorer'', 0.8)]
   \<and> map (\<lambda>p. (Name p, Weight p)) (detectedPatterns (detectPatterns secondCycleAnalyzer))
     = [(''explorer'', 0.7)]
   \<and> (0.7 :: real) \<noteq> (0.8 + 0.7) / 2"
proof -
  have first: "detectedPatterns (detectPatterns firstCycleAnalyzer) = [explorerPattern 0.8]"
    by (simp add: detectPatterns_def detectMovementPatterns_def detectInteractionPatterns_def
        detectFearResponsePatterns_def firstCycleAnalyzer_def addPattern_def Let_def
        List.map_filter_def scareEventTypes_def explorerPattern_def)
  have second: "detectedPatterns (detectPatterns secondCycleAnalyzer) = [explorerPattern 0.7]"
    by (simp add: detectPatterns_def detectMovementPatterns_def detectInteractionPatterns_def
        detectFearResponsePatterns_def secondCycleAnalyzer_def firstCycleAnalyzer_def
        addPattern_def Let_def List.map_filter_def scareEventTypes_def explorerPattern_def)
  show ?thesis by (simp add: first second explorerPattern_def)
qed

end
